theory Spec2Isabelle
  imports Main "HOL-Library.Word"
begin

section \<open>Rollout status of workloads (pkg/internal/polymorphichelpers/rollout_status.go)\<close>

text \<open>
  Go's \<open>int32\<close> and \<open>int64\<close> are machine words: subtraction wraps around, and the
  comparisons \<open><\<close>, \<open><=\<close>, \<open>>\<close> of the source are the signed ones (\<open><s\<close>, \<open>\<le>s\<close>).
\<close>

type_synonym int32 = "32 word"
type_synonym int64 = "64 word"

subsection \<open>Messages and errors\<close>

text \<open>
  A progress message is either a string literal of the source or the call
  \<open>fmt.Sprintf(format, args...)\<close>, kept as the format string with its arguments:
  \<open>Q\<close> is a string printed with the verb \<open>%q\<close>, \<open>S\<close> a string printed with \<open>%s\<close>
  and \<open>D\<close> an \<open>int32\<close> printed with \<open>%d\<close>.
\<close>

datatype arg = Q string | S string | D int32

datatype message = Lit string | Sprintf string "arg list"

text \<open>
  The errors the evaluators build with \<open>fmt.Errorf\<close>, one constructor for each format:
  \<^item> \<open>ConvertError err\<close>: "failed to convert %T to %T: %v";
  \<^item> \<open>RevisionError name err\<close>: "cannot get the revision of deployment %q: %v";
  \<^item> \<open>RevisionMismatch revision deploymentRev\<close>:
    "desired revision (%d) is different from the running revision (%d)";
  \<^item> \<open>ProgressDeadlineExceeded name\<close>: "deployment %q exceeded its progress deadline";
  \<^item> \<open>UnsupportedStrategy t\<close>: "rollout status is only available for %s strategy type";
  \<^item> \<open>NotAPodEvent\<close>: "%#v is not a pod event".

  \<open>ErrWatchClosed\<close> and \<open>ErrWaitTimeout\<close> are the errors of the watch tools, and
  \<open>ClientError\<close> is an error of the pod client, passed on as it is.
\<close>

datatype error =
    ConvertError string
  | RevisionError string string
  | RevisionMismatch int64 int64
  | ProgressDeadlineExceeded string
  | UnsupportedStrategy string
  | NotAPodEvent
  | ErrWatchClosed
  | ErrWaitTimeout
  | ClientError string

text \<open>What \<open>Status\<close> returns: the triple \<open>(string, bool, error)\<close>, a nil error being \<open>None\<close>.\<close>

type_synonym progress = "message \<times> bool \<times> error option"

definition message_of :: "progress \<Rightarrow> message" where
  "message_of r = fst r"

definition done_of :: "progress \<Rightarrow> bool" where
  "done_of r = fst (snd r)"

definition error_of :: "progress \<Rightarrow> error option" where
  "error_of r = snd (snd r)"

text \<open>
  A nil pointer dereference and an index out of range stop the program with a run-time
  panic.
\<close>

datatype panic = NilPointerDereference | IndexOutOfRange

subsection \<open>Constants of the API packages\<close>

definition RollingUpdateDaemonSetStrategyType :: string where
  "RollingUpdateDaemonSetStrategyType = ''RollingUpdate''"

definition RollingUpdateStatefulSetStrategyType :: string where
  "RollingUpdateStatefulSetStrategyType = ''RollingUpdate''"

definition InPlaceOnlyCloneSetUpdateStrategyType :: string where
  "InPlaceOnlyCloneSetUpdateStrategyType = ''InPlaceOnly''"

definition InPlaceIfPossibleCloneSetUpdateStrategyType :: string where
  "InPlaceIfPossibleCloneSetUpdateStrategyType = ''InPlaceIfPossible''"

definition DeploymentProgressing :: string where
  "DeploymentProgressing = ''Progressing''"

definition TimedOutReason :: string where
  "TimedOutReason = ''ProgressDeadlineExceeded''"

subsection \<open>The objects\<close>

text \<open>
  Each record holds the fields of the Go struct that the package reads or writes, a
  field of an embedded struct under its path (\<open>Status_ObservedGeneration\<close> is
  \<open>Status.ObservedGeneration\<close>); the other fields of the struct are the record's
  extension. A pointer field is an \<open>option\<close>, \<open>None\<close> being nil.
\<close>

record DeploymentCondition =
  Type :: string
  Reason :: string

record Deployment =
  Name :: string
  Generation :: int64
  Spec_Replicas :: "int32 option"
  Status_ObservedGeneration :: int64
  Status_Replicas :: int32
  Status_UpdatedReplicas :: int32
  Status_AvailableReplicas :: int32
  Status_Conditions :: "DeploymentCondition list"

record DaemonSet =
  Name :: string
  Generation :: int64
  Spec_UpdateStrategy_Type :: string
  Status_ObservedGeneration :: int64
  Status_DesiredNumberScheduled :: int32
  Status_UpdatedNumberScheduled :: int32
  Status_NumberAvailable :: int32

record RollingUpdateStatefulSetStrategy =
  Partition :: "int32 option"

record StatefulSet =
  Name :: string
  Generation :: int64
  Spec_Replicas :: "int32 option"
  Spec_UpdateStrategy_Type :: string
  Spec_UpdateStrategy_RollingUpdate :: "RollingUpdateStatefulSetStrategy option"
  Status_ObservedGeneration :: int64
  Status_ReadyReplicas :: int32
  Status_CurrentReplicas :: int32
  Status_UpdatedReplicas :: int32
  Status_CurrentRevision :: string
  Status_UpdateRevision :: string

text \<open>\<open>intstr.IntOrString\<close>: \<open>IntVal\<close> is 0 when the value is a string such as "20%".\<close>

record IntOrString =
  Type :: int64
  IntVal :: int32
  StrVal :: string

record 'v EnvVar =
  Name :: string
  Value :: string
  ValueFrom :: "'v option"

record 'v Container =
  Name :: string
  Env :: "'v EnvVar list"

record ('v, 'c) CloneSet =
  Name :: string
  Generation :: int64
  Spec_Replicas :: "int32 option"
  Spec_Template_Spec_Containers :: "('v, 'c) Container_scheme list"
  Spec_UpdateStrategy_Type :: string
  Spec_UpdateStrategy_Partition :: "IntOrString option"
  Status_ObservedGeneration :: int64
  Status_ReadyReplicas :: int32
  Status_AvailableReplicas :: int32
  Status_UpdatedReplicas :: int32
  Status_UpdateRevision :: string
  Status_CurrentRevision :: string

text \<open>The StatefulSet of \<open>kruise-api/apps/v1beta1\<close> (the Advanced StatefulSet).\<close>

record AdvancedRollingUpdateStatefulSetStrategy =
  Partition :: "int32 option"

record ('v, 'c) AdvancedStatefulSet =
  Name :: string
  Generation :: int64
  Spec_Replicas :: "int32 option"
  Spec_Template_Spec_Containers :: "('v, 'c) Container_scheme list"
  Spec_UpdateStrategy_Type :: string
  Spec_UpdateStrategy_RollingUpdate :: "AdvancedRollingUpdateStatefulSetStrategy option"
  Status_ObservedGeneration :: int64
  Status_ReadyReplicas :: int32
  Status_AvailableReplicas :: int32
  Status_UpdatedReplicas :: int32
  Status_CurrentRevision :: string
  Status_UpdateRevision :: string

subsection \<open>Deployment\<close>

text \<open>
  \<open>deploymentutil.GetDeploymentCondition\<close> of \<open>k8s.io/kubectl\<close>: the first condition of
  the given type, nil when there is none.
\<close>

fun GetDeploymentCondition :: "DeploymentCondition list \<Rightarrow> string \<Rightarrow> DeploymentCondition option" where
  "GetDeploymentCondition [] condType = None"
| "GetDeploymentCondition (c # cs) condType =
     (if DeploymentCondition.Type c = condType then Some c else GetDeploymentCondition cs condType)"

text \<open>Lines 95 to 104 of \<open>DeploymentStatusViewer.Status\<close>: the replica checks.\<close>

definition Deployment_replicas :: "'z Deployment_scheme \<Rightarrow> progress" where
  "Deployment_replicas deployment =
     (if Deployment.Spec_Replicas deployment \<noteq> None \<and>
         Deployment.Status_UpdatedReplicas deployment <s the (Deployment.Spec_Replicas deployment)
      then (Sprintf ''Waiting for deployment %q rollout to finish: %d out of %d new replicas have been updated...\<newline>''
              [Q (Deployment.Name deployment), D (Deployment.Status_UpdatedReplicas deployment),
               D (the (Deployment.Spec_Replicas deployment))], False, None)
      else if Deployment.Status_UpdatedReplicas deployment <s Deployment.Status_Replicas deployment
      then (Sprintf ''Waiting for deployment %q rollout to finish: %d old replicas are pending termination...\<newline>''
              [Q (Deployment.Name deployment),
               D (Deployment.Status_Replicas deployment - Deployment.Status_UpdatedReplicas deployment)],
            False, None)
      else if Deployment.Status_AvailableReplicas deployment <s Deployment.Status_UpdatedReplicas deployment
      then (Sprintf ''Waiting for deployment %q rollout to finish: %d of %d updated replicas are available...\<newline>''
              [Q (Deployment.Name deployment), D (Deployment.Status_AvailableReplicas deployment),
               D (Deployment.Status_UpdatedReplicas deployment)], False, None)
      else (Sprintf ''deployment %q successfully rolled out\<newline>'' [Q (Deployment.Name deployment)],
            True, None))"

text \<open>Lines 90 to 106: the generation check and the progress deadline, then the replica checks.\<close>

definition Deployment_rollout :: "'z Deployment_scheme \<Rightarrow> progress" where
  "Deployment_rollout deployment =
     (if Deployment.Generation deployment \<le>s Deployment.Status_ObservedGeneration deployment then
        (case GetDeploymentCondition (Deployment.Status_Conditions deployment) DeploymentProgressing of
           Some cond \<Rightarrow>
             if DeploymentCondition.Reason cond = TimedOutReason
             then (Lit [], False, Some (ProgressDeadlineExceeded (Deployment.Name deployment)))
             else Deployment_replicas deployment
         | None \<Rightarrow> Deployment_replicas deployment)
      else (Sprintf ''Waiting for deployment spec update to be observed...\<newline>'' [], False, None))"

text \<open>
  \<open>DeploymentStatusViewer.Status\<close>. The object decoder
  (\<open>runtime.DefaultUnstructuredConverter.FromUnstructured\<close>) and the revision accessor
  (\<open>deploymentutil.Revision\<close>) belong to other packages and are parameters: each returns
  its error (\<open>Inl\<close>) or its value.
\<close>

definition DeploymentStatusViewer_Status ::
  "('u \<Rightarrow> string + 'z Deployment_scheme) \<Rightarrow> ('z Deployment_scheme \<Rightarrow> string + int64) \<Rightarrow>
   'u \<Rightarrow> int64 \<Rightarrow> progress" where
  "DeploymentStatusViewer_Status FromUnstructured Revision obj revision =
     (case FromUnstructured obj of
        Inl e \<Rightarrow> (Lit [], False, Some (ConvertError e))
      | Inr deployment \<Rightarrow>
          if 0 <s revision then
            (case Revision deployment of
               Inl e \<Rightarrow> (Lit [], False, Some (RevisionError (Deployment.Name deployment) e))
             | Inr deploymentRev \<Rightarrow>
                 if revision \<noteq> deploymentRev
                 then (Lit [], False, Some (RevisionMismatch revision deploymentRev))
                 else Deployment_rollout deployment)
          else Deployment_rollout deployment)"

subsection \<open>DaemonSet\<close>

definition DaemonSetStatusViewer_Status ::
  "('u \<Rightarrow> string + 'z DaemonSet_scheme) \<Rightarrow> 'u \<Rightarrow> int64 \<Rightarrow> progress" where
  "DaemonSetStatusViewer_Status FromUnstructured obj revision =
     (case FromUnstructured obj of
        Inl e \<Rightarrow> (Lit [], False, Some (ConvertError e))
      | Inr daemon \<Rightarrow>
          if DaemonSet.Spec_UpdateStrategy_Type daemon \<noteq> RollingUpdateDaemonSetStrategyType
          then (Lit [], True, Some (UnsupportedStrategy RollingUpdateStatefulSetStrategyType))
          else if DaemonSet.Generation daemon \<le>s DaemonSet.Status_ObservedGeneration daemon then
            (if DaemonSet.Status_UpdatedNumberScheduled daemon <s DaemonSet.Status_DesiredNumberScheduled daemon
             then (Sprintf ''Waiting for daemon set %q rollout to finish: %d out of %d new pods have been updated...\<newline>''
                     [Q (DaemonSet.Name daemon), D (DaemonSet.Status_UpdatedNumberScheduled daemon),
                      D (DaemonSet.Status_DesiredNumberScheduled daemon)], False, None)
             else if DaemonSet.Status_NumberAvailable daemon <s DaemonSet.Status_DesiredNumberScheduled daemon
             then (Sprintf ''Waiting for daemon set %q rollout to finish: %d of %d updated pods are available...\<newline>''
                     [Q (DaemonSet.Name daemon), D (DaemonSet.Status_NumberAvailable daemon),
                      D (DaemonSet.Status_DesiredNumberScheduled daemon)], False, None)
             else (Sprintf ''daemon set %q successfully rolled out\<newline>'' [Q (DaemonSet.Name daemon)],
                   True, None))
          else (Sprintf ''Waiting for daemon set spec update to be observed...\<newline>'' [], False, None))"

subsection \<open>StatefulSet\<close>

definition StatefulSetStatusViewer_Status ::
  "('u \<Rightarrow> string + 'z StatefulSet_scheme) \<Rightarrow> 'u \<Rightarrow> int64 \<Rightarrow> progress" where
  "StatefulSetStatusViewer_Status FromUnstructured obj revision =
     (case FromUnstructured obj of
        Inl e \<Rightarrow> (Lit [], False, Some (ConvertError e))
      | Inr sts \<Rightarrow>
          if StatefulSet.Spec_UpdateStrategy_Type sts \<noteq> RollingUpdateStatefulSetStrategyType
          then (Lit [], True, Some (UnsupportedStrategy RollingUpdateStatefulSetStrategyType))
          else if StatefulSet.Status_ObservedGeneration sts = 0 \<or>
                  StatefulSet.Status_ObservedGeneration sts <s StatefulSet.Generation sts
          then (Lit ''Waiting for statefulset spec update to be observed...\<newline>'', False, None)
          else if StatefulSet.Spec_Replicas sts \<noteq> None \<and>
                  StatefulSet.Status_ReadyReplicas sts <s the (StatefulSet.Spec_Replicas sts)
          then (Sprintf ''Waiting for %d pods to be ready...\<newline>''
                  [D (the (StatefulSet.Spec_Replicas sts) - StatefulSet.Status_ReadyReplicas sts)],
                False, None)
          else if StatefulSet.Spec_UpdateStrategy_Type sts = RollingUpdateStatefulSetStrategyType \<and>
                  StatefulSet.Spec_UpdateStrategy_RollingUpdate sts \<noteq> None
          then
            (if StatefulSet.Spec_Replicas sts \<noteq> None \<and>
                RollingUpdateStatefulSetStrategy.Partition
                  (the (StatefulSet.Spec_UpdateStrategy_RollingUpdate sts)) \<noteq> None \<and>
                StatefulSet.Status_UpdatedReplicas sts <s
                  the (StatefulSet.Spec_Replicas sts) -
                  the (RollingUpdateStatefulSetStrategy.Partition
                         (the (StatefulSet.Spec_UpdateStrategy_RollingUpdate sts)))
             then (Sprintf ''Waiting for partitioned roll out to finish: %d out of %d new pods have been updated...\<newline>''
                     [D (StatefulSet.Status_UpdatedReplicas sts),
                      D (the (StatefulSet.Spec_Replicas sts) -
                         the (RollingUpdateStatefulSetStrategy.Partition
                                (the (StatefulSet.Spec_UpdateStrategy_RollingUpdate sts))))],
                   False, None)
             else (Sprintf ''partitioned roll out complete: %d new pods have been updated...\<newline>''
                     [D (StatefulSet.Status_UpdatedReplicas sts)], True, None))
          else if StatefulSet.Status_UpdateRevision sts \<noteq> StatefulSet.Status_CurrentRevision sts
          then (Sprintf ''waiting for statefulset rolling update to complete %d pods at revision %s...\<newline>''
                  [D (StatefulSet.Status_UpdatedReplicas sts), S (StatefulSet.Status_UpdateRevision sts)],
                False, None)
          else (Sprintf ''statefulset rolling update complete %d pods at revision %s...\<newline>''
                  [D (StatefulSet.Status_CurrentReplicas sts), S (StatefulSet.Status_CurrentRevision sts)],
                True, None))"

subsection \<open>CloneSet\<close>

definition CloneSetStatusViewer_Status ::
  "('u \<Rightarrow> string + ('v, 'c, 'z) CloneSet_scheme) \<Rightarrow> 'u \<Rightarrow> int64 \<Rightarrow> progress" where
  "CloneSetStatusViewer_Status FromUnstructured obj revision =
     (case FromUnstructured obj of
        Inl e \<Rightarrow> (Lit [], False, Some (ConvertError e))
      | Inr cs \<Rightarrow>
          if (CloneSet.Spec_UpdateStrategy_Type cs = InPlaceOnlyCloneSetUpdateStrategyType \<or>
              CloneSet.Spec_UpdateStrategy_Type cs = InPlaceIfPossibleCloneSetUpdateStrategyType) \<and>
             CloneSet.Spec_Replicas cs \<noteq> None \<and> CloneSet.Spec_UpdateStrategy_Partition cs \<noteq> None \<and>
             CloneSet.Status_UpdatedReplicas cs <s
               the (CloneSet.Spec_Replicas cs) - IntVal (the (CloneSet.Spec_UpdateStrategy_Partition cs))
          then (Sprintf ''Waiting for partitioned roll out to finish: %d out of %d new pods have been updated...\<newline>''
                  [D (CloneSet.Status_UpdatedReplicas cs),
                   D (the (CloneSet.Spec_Replicas cs) -
                      IntVal (the (CloneSet.Spec_UpdateStrategy_Partition cs)))], False, None)
          else if CloneSet.Status_ObservedGeneration cs = 0 \<or>
                  CloneSet.Status_ObservedGeneration cs <s CloneSet.Generation cs
          then (Lit ''Waiting for CloneSet spec update to be observed...\<newline>'', False, None)
          else if CloneSet.Spec_Replicas cs \<noteq> None \<and>
                  CloneSet.Status_ReadyReplicas cs <s the (CloneSet.Spec_Replicas cs)
          then (Sprintf ''Waiting for %d pods to be ready...\<newline>''
                  [D (the (CloneSet.Spec_Replicas cs) - CloneSet.Status_ReadyReplicas cs)], False, None)
          else (Sprintf ''CloneSet rolling update complete %d pods at revision %s...\<newline>''
                  [D (CloneSet.Status_AvailableReplicas cs), S (CloneSet.Status_UpdateRevision cs)],
                True, None))"

subsection \<open>Advanced StatefulSet\<close>

text \<open>
  Line 209 reads \<open>asts.Spec.UpdateStrategy.RollingUpdate.Partition\<close> without a nil
  check on \<open>RollingUpdate\<close>: with the RollingUpdate type, replicas set and no
  rolling-update struct, the evaluator panics (\<open>Inl\<close>).
\<close>

definition AdvancedStatefulSet_rollout :: "('v, 'c, 'z) AdvancedStatefulSet_scheme \<Rightarrow> progress" where
  "AdvancedStatefulSet_rollout asts =
     (if AdvancedStatefulSet.Status_ObservedGeneration asts = 0 \<or>
         AdvancedStatefulSet.Status_ObservedGeneration asts <s AdvancedStatefulSet.Generation asts
      then (Lit ''Waiting for Advanced StatefulSet spec update to be observed...\<newline>'', False, None)
      else if AdvancedStatefulSet.Spec_Replicas asts \<noteq> None \<and>
              AdvancedStatefulSet.Status_ReadyReplicas asts <s the (AdvancedStatefulSet.Spec_Replicas asts)
      then (Sprintf ''Waiting for %d pods to be ready...\<newline>''
              [D (the (AdvancedStatefulSet.Spec_Replicas asts) - AdvancedStatefulSet.Status_ReadyReplicas asts)],
            False, None)
      else (Sprintf ''Advanced StatefulSet rolling update complete %d pods at revision %s...\<newline>''
              [D (AdvancedStatefulSet.Status_AvailableReplicas asts),
               S (AdvancedStatefulSet.Status_UpdateRevision asts)], True, None))"

definition AdvancedStatefulSetStatusViewer_Status ::
  "('u \<Rightarrow> string + ('v, 'c, 'z) AdvancedStatefulSet_scheme) \<Rightarrow> 'u \<Rightarrow> int64 \<Rightarrow> panic + progress" where
  "AdvancedStatefulSetStatusViewer_Status FromUnstructured obj revision =
     (case FromUnstructured obj of
        Inl e \<Rightarrow> Inr (Lit [], False, Some (ConvertError e))
      | Inr asts \<Rightarrow>
          if AdvancedStatefulSet.Spec_UpdateStrategy_Type asts = RollingUpdateStatefulSetStrategyType \<and>
             AdvancedStatefulSet.Spec_Replicas asts \<noteq> None
          then
            (case AdvancedStatefulSet.Spec_UpdateStrategy_RollingUpdate asts of
               None \<Rightarrow> Inl NilPointerDereference
             | Some ru \<Rightarrow>
                 if AdvancedRollingUpdateStatefulSetStrategy.Partition ru \<noteq> None \<and>
                    AdvancedStatefulSet.Status_UpdatedReplicas asts <s
                      the (AdvancedStatefulSet.Spec_Replicas asts) -
                      the (AdvancedRollingUpdateStatefulSetStrategy.Partition ru)
                 then Inr (Sprintf ''Waiting for partitioned roll out to finish:%d out of %d new pods has been updated...\<newline>''
                             [D (AdvancedStatefulSet.Status_UpdatedReplicas asts),
                              D (the (AdvancedStatefulSet.Spec_Replicas asts) -
                                 the (AdvancedRollingUpdateStatefulSetStrategy.Partition ru))], False, None)
                 else Inr (AdvancedStatefulSet_rollout asts))
          else Inr (AdvancedStatefulSet_rollout asts))"

section \<open>Pods and environments (pkg/internal/polymorphichelpers/helpers.go)\<close>

definition RestartedEnv :: string where
  "RestartedEnv = ''RESTARTED_AT''"

subsection \<open>GetFirstPod\<close>

text \<open>
  The pod client is a collaborator: \<open>client.Pods(namespace)\<close> gives the two calls
  \<open>List\<close> and \<open>Watch\<close>, each returning its error (\<open>Inl\<close>) or its value. A pod is a
  value of any type \<open>'p\<close>.
\<close>

record ListOptions =
  LabelSelector :: string
  ResourceVersion :: string

record 'p PodList =
  Items :: "'p list"
  ResourceVersion :: string

text \<open>The type of a watch event is a string; \<open>watch.Added\<close> and \<open>watch.Modified\<close>:\<close>

definition Added :: string where
  "Added = ''ADDED''"

definition Modified :: string where
  "Modified = ''MODIFIED''"

text \<open>The object of an event is a \<open>runtime.Object\<close>: a pod or something else.\<close>

datatype 'p event_object = PodObject 'p | OtherEventObject

record 'p Event =
  Type :: string
  Object :: "'p event_object"

text \<open>
  A watch, seen from the one goroutine that reads it: the events its result channel
  delivers, in order, and what follows them: the channel is closed (\<open>closed\<close>), or it
  stays open and delivers nothing more.
\<close>

record 'p Watcher =
  events :: "'p Event list"
  closed :: bool

record 'p PodInterface =
  List :: "ListOptions \<Rightarrow> error + 'p PodList"
  Watch :: "ListOptions \<Rightarrow> error + 'p Watcher"

text \<open>
  \<open>watchtools.ContextWithOptionalTimeout\<close> of \<open>k8s.io/client-go\<close>: a positive timeout
  gives the context a deadline; a timeout that is not positive gives none (an infinite
  timeout). GetFirstPod derives the context from \<open>context.Background()\<close> and cancels it
  only when it returns, so that nothing but the deadline ends the context. In the select
  of \<open>UntilWithoutRetry\<close> the context races with the result channel: \<open>expiry\<close> is the
  number of events the select receives before it finds the context done (a number
  beyond the events of the watch when the deadline comes after them). The context is
  \<open>Some expiry\<close> with a deadline and \<open>None\<close> without.
\<close>

definition ContextWithOptionalTimeout :: "int64 \<Rightarrow> nat \<Rightarrow> nat option" where
  "ContextWithOptionalTimeout timeout expiry = (if 0 <s timeout then Some expiry else None)"

text \<open>
  \<open>watchtools.UntilWithoutRetry\<close> of \<open>k8s.io/client-go\<close>, for one condition. Each
  round of its loop is a select: when the context is done it returns
  \<open>wait.ErrWaitTimeout\<close>; when the channel is closed it returns \<open>ErrWatchClosed\<close>;
  otherwise it receives an event and returns it when the condition holds (with a nil
  error) or fails (with the error). Each error comes with the last event received. On
  an open channel that delivers nothing more it waits for the context: without a
  deadline it never returns, \<open>None\<close>. It stops the watcher when it returns (its deferred
  \<open>watcher.Stop()\<close>).
\<close>

fun UntilWithoutRetry ::
  "nat option \<Rightarrow> 'p Event list \<Rightarrow> bool \<Rightarrow> ('p Event \<Rightarrow> bool \<times> error option) \<Rightarrow> 'p Event option \<Rightarrow>
   ('p Event option \<times> error option) option" where
  "UntilWithoutRetry ctx [] is_closed condition lastEvent =
     (if ctx = Some 0 then Some (lastEvent, Some ErrWaitTimeout)
      else if is_closed then Some (lastEvent, Some ErrWatchClosed)
      else if ctx = None then None
      else Some (lastEvent, Some ErrWaitTimeout))"
| "UntilWithoutRetry ctx (event # rest) is_closed condition lastEvent =
     (if ctx = Some 0 then Some (lastEvent, Some ErrWaitTimeout)
      else case condition event of
        (ok, Some e) \<Rightarrow> Some (Some event, Some e)
      | (True, None) \<Rightarrow> Some (Some event, None)
      | (False, None) \<Rightarrow>
          UntilWithoutRetry (map_option (\<lambda>k. k - 1) ctx) rest is_closed condition (Some event))"

text \<open>
  The calls GetFirstPod makes on the client and on the watcher, in order, and how it
  ends: it returns its triple \<open>(*corev1.Pod, int, error)\<close>, panics, or never returns.
  After \<open>UntilWithoutRetry\<close> has returned the watcher is stopped twice: by the deferred
  \<open>watcher.Stop()\<close> of \<open>UntilWithoutRetry\<close> and by the deferred \<open>w.Stop()\<close> of
  GetFirstPod.
\<close>

datatype call = ListCall string ListOptions | WatchCall string ListOptions | StopCall

datatype 'p outcome = Returns "'p option \<times> int \<times> error option" | Panics panic | Blocks

text \<open>
  \<open>sortBy\<close> stands for \<open>sort.Sort(sortBy(pods))\<close>: it gives the content of the slice
  \<open>pods\<close> after the call. Sorting cannot change the length of a slice, so \<open>pods[0]\<close> is
  in range; the model panics on an empty result. \<open>expiry\<close> is the race between the
  context and the watch, as above.
\<close>

definition GetFirstPod ::
  "(string \<Rightarrow> 'p PodInterface) \<Rightarrow> string \<Rightarrow> string \<Rightarrow> int64 \<Rightarrow> ('p list \<Rightarrow> 'p list) \<Rightarrow> nat \<Rightarrow>
   call list \<times> 'p outcome" where
  "GetFirstPod client namespace selector timeout sortBy expiry =
     (let options = \<lparr>LabelSelector = selector, ResourceVersion = []\<rparr> in
      case List (client namespace) options of
        Inl e \<Rightarrow> ([ListCall namespace options], Returns (None, 0, Some e))
      | Inr podList \<Rightarrow>
          (let pods = Items podList in
           if 0 < length pods then
             (case sortBy pods of
                [] \<Rightarrow> ([ListCall namespace options], Panics IndexOutOfRange)
              | pod # others \<Rightarrow>
                  ([ListCall namespace options],
                   Returns (Some pod, int (length (Items podList)), None)))
           else
             (let options' = options\<lparr>ListOptions.ResourceVersion := PodList.ResourceVersion podList\<rparr>
              in case Watch (client namespace) options' of
                Inl e \<Rightarrow>
                  ([ListCall namespace options, WatchCall namespace options'],
                   Returns (None, 0, Some e))
              | Inr w \<Rightarrow>
                  (let condition =
                         (\<lambda>event. (Event.Type event = Added \<or> Event.Type event = Modified, None));
                       ctx = ContextWithOptionalTimeout timeout expiry
                   in case UntilWithoutRetry ctx (events w) (closed w) condition None of
                     None \<Rightarrow> ([ListCall namespace options, WatchCall namespace options'], Blocks)
                   | Some (event, Some e) \<Rightarrow>
                       ([ListCall namespace options, WatchCall namespace options', StopCall, StopCall],
                        Returns (None, 0, Some e))
                   | Some (None, None) \<Rightarrow>
                       ([ListCall namespace options, WatchCall namespace options', StopCall, StopCall],
                        Panics NilPointerDereference)
                   | Some (Some event, None) \<Rightarrow>
                       (case Event.Object event of
                          PodObject pod \<Rightarrow>
                            ([ListCall namespace options, WatchCall namespace options',
                              StopCall, StopCall],
                             Returns (Some pod, 1, None))
                        | OtherEventObject \<Rightarrow>
                            ([ListCall namespace options, WatchCall namespace options',
                              StopCall, StopCall],
                             Returns (None, 0, Some NotAPodEvent)))))))"

subsection \<open>updateEnv\<close>

fun findEnv :: "'v EnvVar list \<Rightarrow> string \<Rightarrow> 'v EnvVar \<times> bool" where
  "findEnv [] name = (\<lparr>EnvVar.Name = [], Value = [], ValueFrom = None\<rparr>, False)"
| "findEnv (e # env) name = (if EnvVar.Name e = name then (e, True) else findEnv env name)"

text \<open>
  The first loop of \<open>updateEnv\<close>, over \<open>existing\<close>, with the variables \<open>out\<close> and
  \<open>covered\<close> it updates; then the second loop, over \<open>env\<close>.
\<close>

fun updateEnv_existing ::
  "'v EnvVar list \<Rightarrow> 'v EnvVar list \<Rightarrow> 'v EnvVar list \<Rightarrow> string set \<Rightarrow> 'v EnvVar list \<times> string set" where
  "updateEnv_existing [] env out covered = (out, covered)"
| "updateEnv_existing (e # existing) env out covered =
     (if EnvVar.Name e \<in> covered then updateEnv_existing existing env out covered
      else case findEnv env (EnvVar.Name e) of
        (newer, True) \<Rightarrow>
          updateEnv_existing existing env (out @ [newer]) (insert (EnvVar.Name e) covered)
      | (newer, False) \<Rightarrow> updateEnv_existing existing env (out @ [e]) covered)"

fun updateEnv_env :: "'v EnvVar list \<Rightarrow> 'v EnvVar list \<Rightarrow> string set \<Rightarrow> 'v EnvVar list" where
  "updateEnv_env [] out covered = out"
| "updateEnv_env (e # env) out covered =
     (if EnvVar.Name e \<in> covered then updateEnv_env env out covered
      else updateEnv_env env (out @ [e]) (insert (EnvVar.Name e) covered))"

definition updateEnv :: "'v EnvVar list \<Rightarrow> 'v EnvVar list \<Rightarrow> string list \<Rightarrow> 'v EnvVar list" where
  "updateEnv existing env remove =
     (case updateEnv_existing existing env [] (set remove) of
        (out, covered) \<Rightarrow> updateEnv_env env out covered)"

text \<open>
  A list that the first loop of \<open>updateEnv\<close> leaves as it is when it starts with the
  names \<open>covered\<close>: no entry is covered when the loop reaches it, and an entry whose name
  is in \<open>env\<close> is the entry \<open>findEnv\<close> gives for that name.
\<close>

fun upserted :: "'v EnvVar list \<Rightarrow> string set \<Rightarrow> 'v EnvVar list \<Rightarrow> bool" where
  "upserted env covered [] = True"
| "upserted env covered (e # out) =
     (EnvVar.Name e \<notin> covered \<and>
      (case findEnv env (EnvVar.Name e) of
         (newer, True) \<Rightarrow> newer = e \<and> upserted env (insert (EnvVar.Name e) covered) out
       | (newer, False) \<Rightarrow> upserted env covered out))"

text \<open>
  The list without the later entries of a name of \<open>names\<close>: of the entries with such a
  name only the first stays, the entries with other names all stay.
\<close>

fun keep_first :: "string set \<Rightarrow> 'v EnvVar list \<Rightarrow> 'v EnvVar list" where
  "keep_first names [] = []"
| "keep_first names (e # es) =
     (if EnvVar.Name e \<in> names
      then e # keep_first names (filter (\<lambda>a. EnvVar.Name a \<noteq> EnvVar.Name e) es)
      else e # keep_first names es)"

subsection \<open>UpdateResourceEnv\<close>

text \<open>
  The object is a \<open>runtime.Object\<close>: a pointer to a CloneSet, to a StatefulSet of
  \<open>kruise-api/apps/v1beta1\<close>, or to a value of another type. The function updates the
  object in place and returns nothing: the model returns the object after the call.
  \<open>now\<close> is \<open>time.Now().Format(time.RFC3339)\<close>.
\<close>

datatype ('cs, 'asts, 'o) Object =
    CloneSetObject 'cs
  | AdvancedStatefulSetObject 'asts
  | OtherObject 'o

text \<open>
  The loop over the indices of \<open>obj.Spec.Template.Spec.Containers\<close>, which writes the
  \<open>Env\<close> of the container at each index.
\<close>

definition update_Containers ::
  "'v EnvVar list \<Rightarrow> ('v, 'c) Container_scheme list \<Rightarrow> ('v, 'c) Container_scheme list" where
  "update_Containers addingEnvs containers =
     fold (\<lambda>i cs. cs[i := (cs ! i)\<lparr>Env := updateEnv (Env (cs ! i)) addingEnvs []\<rparr>])
       [0..<length containers] containers"

definition UpdateResourceEnv ::
  "string \<Rightarrow> (('v, 'c, 'z) CloneSet_scheme, ('v, 'c, 'y) AdvancedStatefulSet_scheme, 'o) Object \<Rightarrow>
   (('v, 'c, 'z) CloneSet_scheme, ('v, 'c, 'y) AdvancedStatefulSet_scheme, 'o) Object" where
  "UpdateResourceEnv now object =
     (let restartEnv = \<lparr>EnvVar.Name = RestartedEnv, Value = now, ValueFrom = None\<rparr>;
          addingEnvs = [] @ [restartEnv]
      in case object of
           CloneSetObject obj \<Rightarrow>
             CloneSetObject
               (obj\<lparr>CloneSet.Spec_Template_Spec_Containers :=
                      update_Containers addingEnvs (CloneSet.Spec_Template_Spec_Containers obj)\<rparr>)
         | AdvancedStatefulSetObject obj \<Rightarrow>
             AdvancedStatefulSetObject
               (obj\<lparr>AdvancedStatefulSet.Spec_Template_Spec_Containers :=
                      update_Containers addingEnvs (AdvancedStatefulSet.Spec_Template_Spec_Containers obj)\<rparr>)
         | OtherObject obj \<Rightarrow> OtherObject obj)"

section \<open>Examples\<close>

subsection \<open>Example snapshots\<close>

text \<open>
  A Deployment with 3 desired replicas of which 1 is updated and available; a converged
  DaemonSet; a StatefulSet and an Advanced StatefulSet with 5 replicas, partition 2 and 3
  updated pods; a CloneSet with 4 replicas, partition 1 and 3 updated pods. All have
  their generation observed.
\<close>

definition web :: Deployment where
  "web = \<lparr>Deployment.Name = ''web'', Generation = 2, Spec_Replicas = Some 3,
          Status_ObservedGeneration = 2, Status_Replicas = 3, Status_UpdatedReplicas = 1,
          Status_AvailableReplicas = 1, Status_Conditions = []\<rparr>"

definition agent :: DaemonSet where
  "agent = \<lparr>DaemonSet.Name = ''agent'', Generation = 2, Spec_UpdateStrategy_Type = ''RollingUpdate'',
            Status_ObservedGeneration = 2, Status_DesiredNumberScheduled = 3,
            Status_UpdatedNumberScheduled = 3, Status_NumberAvailable = 3\<rparr>"

definition db :: StatefulSet where
  "db = \<lparr>StatefulSet.Name = ''db'', Generation = 2, Spec_Replicas = Some 5,
         Spec_UpdateStrategy_Type = ''RollingUpdate'',
         Spec_UpdateStrategy_RollingUpdate =
           Some \<lparr>RollingUpdateStatefulSetStrategy.Partition = Some 2\<rparr>,
         Status_ObservedGeneration = 2, Status_ReadyReplicas = 5, Status_CurrentReplicas = 2,
         Status_UpdatedReplicas = 3, Status_CurrentRevision = ''db-1'',
         Status_UpdateRevision = ''db-2''\<rparr>"

definition clone :: "(unit, unit) CloneSet" where
  "clone = \<lparr>CloneSet.Name = ''clone'', Generation = 2, Spec_Replicas = Some 4,
            Spec_Template_Spec_Containers = [],
            Spec_UpdateStrategy_Type = ''InPlaceIfPossible'',
            Spec_UpdateStrategy_Partition = Some \<lparr>IntOrString.Type = 0, IntVal = 1, StrVal = []\<rparr>,
            Status_ObservedGeneration = 2, Status_ReadyReplicas = 4, Status_AvailableReplicas = 4,
            Status_UpdatedReplicas = 3, Status_UpdateRevision = ''clone-2'',
            Status_CurrentRevision = ''clone-1''\<rparr>"

definition adv :: "(unit, unit) AdvancedStatefulSet" where
  "adv = \<lparr>AdvancedStatefulSet.Name = ''adv'', Generation = 2, Spec_Replicas = Some 5,
          Spec_Template_Spec_Containers = [],
          Spec_UpdateStrategy_Type = ''RollingUpdate'',
          Spec_UpdateStrategy_RollingUpdate =
            Some \<lparr>AdvancedRollingUpdateStatefulSetStrategy.Partition = Some 2\<rparr>,
          Status_ObservedGeneration = 2, Status_ReadyReplicas = 5, Status_AvailableReplicas = 5,
          Status_UpdatedReplicas = 3, Status_CurrentRevision = ''adv-1'',
          Status_UpdateRevision = ''adv-2''\<rparr>"

subsection \<open>Example pods and environments\<close>

text \<open>
  A client whose list finds three pods (a pod is its number here) and a client whose
  list is empty at resource version 42 and whose watch is \<open>w\<close>.
\<close>

definition listing_client :: "string \<Rightarrow> nat PodInterface" where
  "listing_client namespace =
     \<lparr>List = (\<lambda>options. Inr \<lparr>Items = [3, 1, 2], ResourceVersion = ''41''\<rparr>),
      Watch = (\<lambda>options. Inl (ClientError ''watch refused''))\<rparr>"

definition watching_client :: "nat Watcher \<Rightarrow> string \<Rightarrow> nat PodInterface" where
  "watching_client w namespace =
     \<lparr>List = (\<lambda>options. Inr \<lparr>Items = [], ResourceVersion = ''42''\<rparr>),
      Watch = (\<lambda>options. Inr w)\<rparr>"

definition var :: "string \<Rightarrow> string \<Rightarrow> unit EnvVar" where
  "var name v = \<lparr>EnvVar.Name = name, Value = v, ValueFrom = None\<rparr>"

text \<open>The example CloneSet with two containers, the first restarted once before.\<close>

definition clone_with_containers :: "(unit, unit) CloneSet" where
  "clone_with_containers =
     clone\<lparr>CloneSet.Spec_Template_Spec_Containers :=
       [\<lparr>Container.Name = ''app'', Env = [var ''RESTARTED_AT'' ''2021-01-01T00:00:00Z'', var ''A'' ''1'']\<rparr>,
        \<lparr>Container.Name = ''sidecar'', Env = []\<rparr>]\<rparr>"

section \<open>Properties of the rollout status evaluators\<close>

lemmas api_consts =
  RollingUpdateDaemonSetStrategyType_def RollingUpdateStatefulSetStrategyType_def
  InPlaceOnlyCloneSetUpdateStrategyType_def InPlaceIfPossibleCloneSetUpdateStrategyType_def
  DeploymentProgressing_def TimedOutReason_def

lemmas progress_simps = message_of_def done_of_def error_of_def

lemmas signed_simps = word_sless_alt word_sle_eq

lemmas examples = web_def agent_def db_def clone_def adv_def

subsection \<open>Generation not yet observed\<close>

text \<open>
  C1, as the claim states it, fails: the DaemonSet evaluator checks the update strategy
  before the generation, so a DaemonSet with the OnDelete strategy whose generation 3 is
  not yet observed (observed generation 2) gets done=true together with an error.
\<close>

theorem C1_unobserved_daemonset_counterexample:
  "DaemonSet.Status_ObservedGeneration
     (agent\<lparr>DaemonSet.Spec_UpdateStrategy_Type := ''OnDelete'', DaemonSet.Generation := 3\<rparr>)
     <s DaemonSet.Generation
          (agent\<lparr>DaemonSet.Spec_UpdateStrategy_Type := ''OnDelete'', DaemonSet.Generation := 3\<rparr>) \<and>
   DaemonSetStatusViewer_Status Inr
     (agent\<lparr>DaemonSet.Spec_UpdateStrategy_Type := ''OnDelete'', DaemonSet.Generation := 3\<rparr>) 0
     = (Lit [], True, Some (UnsupportedStrategy ''RollingUpdate''))"
  by (simp add: DaemonSetStatusViewer_Status_def api_consts examples signed_simps)

text \<open>
  C1, amended. For a decoded snapshot with observedGeneration < generation, whatever the
  replica counts:
  \<^item> the Deployment evaluator, when the target revision is not positive or is the running
    revision, and the DaemonSet and StatefulSet evaluators, when the strategy type is
    RollingUpdate, return their "waiting for spec update to be observed" message with
    done=false and no error;
  \<^item> the CloneSet and Advanced StatefulSet evaluators return done=false and no error,
    with the partition shortfall message when that check, which comes first, fires and
    with the "waiting for spec update to be observed" message otherwise (for the
    Advanced StatefulSet, when the rolling-update struct it reads is present).
\<close>

theorem C1_unobserved_generation_waits:
  "(FromUnstructured_d obj_d = Inr deployment \<and>
    Deployment.Status_ObservedGeneration deployment <s Deployment.Generation deployment \<and>
    (\<not> 0 <s revision \<or> Revision deployment = Inr revision) \<longrightarrow>
    DeploymentStatusViewer_Status FromUnstructured_d Revision obj_d revision =
      (Sprintf ''Waiting for deployment spec update to be observed...\<newline>'' [], False, None)) \<and>
   (FromUnstructured_ds obj_ds = Inr daemon \<and>
    DaemonSet.Status_ObservedGeneration daemon <s DaemonSet.Generation daemon \<and>
    DaemonSet.Spec_UpdateStrategy_Type daemon = RollingUpdateDaemonSetStrategyType \<longrightarrow>
    DaemonSetStatusViewer_Status FromUnstructured_ds obj_ds revision =
      (Sprintf ''Waiting for daemon set spec update to be observed...\<newline>'' [], False, None)) \<and>
   (FromUnstructured_sts obj_sts = Inr sts \<and>
    StatefulSet.Status_ObservedGeneration sts <s StatefulSet.Generation sts \<and>
    StatefulSet.Spec_UpdateStrategy_Type sts = RollingUpdateStatefulSetStrategyType \<longrightarrow>
    StatefulSetStatusViewer_Status FromUnstructured_sts obj_sts revision =
      (Lit ''Waiting for statefulset spec update to be observed...\<newline>'', False, None)) \<and>
   (FromUnstructured_cs obj_cs = Inr cs \<and>
    CloneSet.Status_ObservedGeneration cs <s CloneSet.Generation cs \<longrightarrow>
    CloneSetStatusViewer_Status FromUnstructured_cs obj_cs revision =
      (if (CloneSet.Spec_UpdateStrategy_Type cs = InPlaceOnlyCloneSetUpdateStrategyType \<or>
           CloneSet.Spec_UpdateStrategy_Type cs = InPlaceIfPossibleCloneSetUpdateStrategyType) \<and>
          CloneSet.Spec_Replicas cs \<noteq> None \<and> CloneSet.Spec_UpdateStrategy_Partition cs \<noteq> None \<and>
          CloneSet.Status_UpdatedReplicas cs <s
            the (CloneSet.Spec_Replicas cs) - IntVal (the (CloneSet.Spec_UpdateStrategy_Partition cs))
       then (Sprintf ''Waiting for partitioned roll out to finish: %d out of %d new pods have been updated...\<newline>''
               [D (CloneSet.Status_UpdatedReplicas cs),
                D (the (CloneSet.Spec_Replicas cs) -
                   IntVal (the (CloneSet.Spec_UpdateStrategy_Partition cs)))], False, None)
       else (Lit ''Waiting for CloneSet spec update to be observed...\<newline>'', False, None))) \<and>
   (FromUnstructured_asts obj_asts = Inr asts \<and>
    AdvancedStatefulSet.Status_ObservedGeneration asts <s AdvancedStatefulSet.Generation asts \<and>
    (AdvancedStatefulSet.Spec_UpdateStrategy_Type asts = RollingUpdateStatefulSetStrategyType \<and>
     AdvancedStatefulSet.Spec_Replicas asts \<noteq> None \<longrightarrow>
     AdvancedStatefulSet.Spec_UpdateStrategy_RollingUpdate asts \<noteq> None) \<longrightarrow>
    AdvancedStatefulSetStatusViewer_Status FromUnstructured_asts obj_asts revision =
      Inr (if AdvancedStatefulSet.Spec_UpdateStrategy_Type asts = RollingUpdateStatefulSetStrategyType \<and>
              AdvancedStatefulSet.Spec_Replicas asts \<noteq> None \<and>
              AdvancedRollingUpdateStatefulSetStrategy.Partition
                (the (AdvancedStatefulSet.Spec_UpdateStrategy_RollingUpdate asts)) \<noteq> None \<and>
              AdvancedStatefulSet.Status_UpdatedReplicas asts <s
                the (AdvancedStatefulSet.Spec_Replicas asts) -
                the (AdvancedRollingUpdateStatefulSetStrategy.Partition
                       (the (AdvancedStatefulSet.Spec_UpdateStrategy_RollingUpdate asts)))
           then (Sprintf ''Waiting for partitioned roll out to finish:%d out of %d new pods has been updated...\<newline>''
                   [D (AdvancedStatefulSet.Status_UpdatedReplicas asts),
                    D (the (AdvancedStatefulSet.Spec_Replicas asts) -
                       the (AdvancedRollingUpdateStatefulSetStrategy.Partition
                              (the (AdvancedStatefulSet.Spec_UpdateStrategy_RollingUpdate asts))))],
                 False, None)
           else (Lit ''Waiting for Advanced StatefulSet spec update to be observed...\<newline>'',
                 False, None)))"
  apply (intro conjI impI)
  subgoal by (auto simp: DeploymentStatusViewer_Status_def Deployment_rollout_def)
  subgoal by (auto simp: DaemonSetStatusViewer_Status_def)
  subgoal by (simp add: StatefulSetStatusViewer_Status_def)
  subgoal by (simp add: CloneSetStatusViewer_Status_def)
  subgoal by (auto simp: AdvancedStatefulSetStatusViewer_Status_def AdvancedStatefulSet_rollout_def
        split: option.splits)
  done

theorem C1_unobserved_generation_waits_witness:
  "Deployment.Status_ObservedGeneration (web\<lparr>Deployment.Generation := 3\<rparr>)
     <s Deployment.Generation (web\<lparr>Deployment.Generation := 3\<rparr>) \<and>
   DeploymentStatusViewer_Status Inr (\<lambda>d. Inr 7) (web\<lparr>Deployment.Generation := 3\<rparr>) 7 =
     (Sprintf ''Waiting for deployment spec update to be observed...\<newline>'' [], False, None) \<and>
   DaemonSetStatusViewer_Status Inr (agent\<lparr>DaemonSet.Generation := 3\<rparr>) 7 =
     (Sprintf ''Waiting for daemon set spec update to be observed...\<newline>'' [], False, None) \<and>
   StatefulSetStatusViewer_Status Inr (db\<lparr>StatefulSet.Generation := 3\<rparr>) 7 =
     (Lit ''Waiting for statefulset spec update to be observed...\<newline>'', False, None) \<and>
   CloneSetStatusViewer_Status Inr (clone\<lparr>CloneSet.Generation := 3\<rparr>) 7 =
     (Lit ''Waiting for CloneSet spec update to be observed...\<newline>'', False, None) \<and>
   CloneSetStatusViewer_Status Inr
     (clone\<lparr>CloneSet.Generation := 3, CloneSet.Status_UpdatedReplicas := 2\<rparr>) 7 =
     (Sprintf ''Waiting for partitioned roll out to finish: %d out of %d new pods have been updated...\<newline>''
        [D 2, D 3], False, None) \<and>
   AdvancedStatefulSetStatusViewer_Status Inr (adv\<lparr>AdvancedStatefulSet.Generation := 3\<rparr>) 7 =
     Inr (Lit ''Waiting for Advanced StatefulSet spec update to be observed...\<newline>'', False, None)"
  using C1_unobserved_generation_waits
          [where FromUnstructured_d = Inr and obj_d = "web\<lparr>Deployment.Generation := 3\<rparr>"
             and deployment = "web\<lparr>Deployment.Generation := 3\<rparr>"
             and Revision = "\<lambda>d. Inr 7" and revision = 7
             and FromUnstructured_ds = Inr and obj_ds = "agent\<lparr>DaemonSet.Generation := 3\<rparr>"
             and daemon = "agent\<lparr>DaemonSet.Generation := 3\<rparr>"
             and FromUnstructured_sts = Inr and obj_sts = "db\<lparr>StatefulSet.Generation := 3\<rparr>"
             and sts = "db\<lparr>StatefulSet.Generation := 3\<rparr>"
             and FromUnstructured_cs = Inr and obj_cs = "clone\<lparr>CloneSet.Generation := 3\<rparr>"
             and cs = "clone\<lparr>CloneSet.Generation := 3\<rparr>"
             and FromUnstructured_asts = Inr and obj_asts = "adv\<lparr>AdvancedStatefulSet.Generation := 3\<rparr>"
             and asts = "adv\<lparr>AdvancedStatefulSet.Generation := 3\<rparr>"]
        C1_unobserved_generation_waits
          [where FromUnstructured_d = Inr and obj_d = "web\<lparr>Deployment.Generation := 3\<rparr>"
             and deployment = "web\<lparr>Deployment.Generation := 3\<rparr>"
             and Revision = "\<lambda>d. Inr 7" and revision = 7
             and FromUnstructured_ds = Inr and obj_ds = "agent\<lparr>DaemonSet.Generation := 3\<rparr>"
             and daemon = "agent\<lparr>DaemonSet.Generation := 3\<rparr>"
             and FromUnstructured_sts = Inr and obj_sts = "db\<lparr>StatefulSet.Generation := 3\<rparr>"
             and sts = "db\<lparr>StatefulSet.Generation := 3\<rparr>"
             and FromUnstructured_cs = Inr
             and obj_cs = "clone\<lparr>CloneSet.Generation := 3, CloneSet.Status_UpdatedReplicas := 2\<rparr>"
             and cs = "clone\<lparr>CloneSet.Generation := 3, CloneSet.Status_UpdatedReplicas := 2\<rparr>"
             and FromUnstructured_asts = Inr and obj_asts = "adv\<lparr>AdvancedStatefulSet.Generation := 3\<rparr>"
             and asts = "adv\<lparr>AdvancedStatefulSet.Generation := 3\<rparr>"]
  by (simp add: examples api_consts signed_simps)

subsection \<open>Errors and done\<close>

text \<open>
  C2, as the claim states it, fails: for a StatefulSet whose update strategy is OnDelete
  the evaluator returns done=true together with the unsupported-strategy error.
\<close>

theorem C2_done_with_error_counterexample:
  "done_of (StatefulSetStatusViewer_Status Inr
              (db\<lparr>StatefulSet.Spec_UpdateStrategy_Type := ''OnDelete''\<rparr>) 0) \<and>
   error_of (StatefulSetStatusViewer_Status Inr
               (db\<lparr>StatefulSet.Spec_UpdateStrategy_Type := ''OnDelete''\<rparr>) 0)
     = Some (UnsupportedStrategy ''RollingUpdate'')"
  by (simp add: StatefulSetStatusViewer_Status_def api_consts progress_simps examples)

text \<open>
  C2, amended. The Deployment, CloneSet and Advanced StatefulSet evaluators never return
  done=true together with an error. The DaemonSet and StatefulSet evaluators return
  done=true together with an error exactly when the object decodes and its update
  strategy type is not RollingUpdate (the unsupported-strategy error); every other error
  of theirs comes with done=false.
\<close>

theorem C2_done_with_error_only_unsupported_strategy:
  "(done_of (DeploymentStatusViewer_Status FromUnstructured_d Revision obj_d revision) \<longrightarrow>
      error_of (DeploymentStatusViewer_Status FromUnstructured_d Revision obj_d revision) = None) \<and>
   (done_of (CloneSetStatusViewer_Status FromUnstructured_cs obj_cs revision) \<longrightarrow>
      error_of (CloneSetStatusViewer_Status FromUnstructured_cs obj_cs revision) = None) \<and>
   (AdvancedStatefulSetStatusViewer_Status FromUnstructured_asts obj_asts revision = Inr r \<and>
    done_of r \<longrightarrow> error_of r = None) \<and>
   (done_of (DaemonSetStatusViewer_Status FromUnstructured_ds obj_ds revision) \<and>
    error_of (DaemonSetStatusViewer_Status FromUnstructured_ds obj_ds revision) \<noteq> None \<longleftrightarrow>
      (case FromUnstructured_ds obj_ds of
         Inl e \<Rightarrow> False
       | Inr daemon \<Rightarrow> DaemonSet.Spec_UpdateStrategy_Type daemon \<noteq> RollingUpdateDaemonSetStrategyType)) \<and>
   (done_of (StatefulSetStatusViewer_Status FromUnstructured_sts obj_sts revision) \<and>
    error_of (StatefulSetStatusViewer_Status FromUnstructured_sts obj_sts revision) \<noteq> None \<longleftrightarrow>
      (case FromUnstructured_sts obj_sts of
         Inl e \<Rightarrow> False
       | Inr sts \<Rightarrow> StatefulSet.Spec_UpdateStrategy_Type sts \<noteq> RollingUpdateStatefulSetStrategyType))"
  apply (intro conjI)
  subgoal by (simp add: DeploymentStatusViewer_Status_def Deployment_rollout_def Deployment_replicas_def
        progress_simps split: sum.splits option.splits)
  subgoal by (simp add: CloneSetStatusViewer_Status_def progress_simps split: sum.splits)
  subgoal by (auto simp: AdvancedStatefulSetStatusViewer_Status_def AdvancedStatefulSet_rollout_def
        progress_simps split: sum.splits option.splits if_splits)
  subgoal by (simp add: DaemonSetStatusViewer_Status_def progress_simps split: sum.splits)
  subgoal by (simp add: StatefulSetStatusViewer_Status_def progress_simps split: sum.splits)
  done

theorem C2_done_with_error_only_unsupported_strategy_witness:
  "done_of (DeploymentStatusViewer_Status Inr (\<lambda>d. Inr 0)
              (web\<lparr>Deployment.Status_UpdatedReplicas := 3, Deployment.Status_AvailableReplicas := 3\<rparr>) 0) \<and>
   error_of (DeploymentStatusViewer_Status Inr (\<lambda>d. Inr 0)
               (web\<lparr>Deployment.Status_UpdatedReplicas := 3, Deployment.Status_AvailableReplicas := 3\<rparr>) 0)
     = None \<and>
   done_of (CloneSetStatusViewer_Status Inr clone 0) \<and>
   error_of (CloneSetStatusViewer_Status Inr clone 0) = None \<and>
   (\<exists>r. AdvancedStatefulSetStatusViewer_Status Inr adv 0 = Inr r \<and> done_of r \<and> error_of r = None) \<and>
   done_of (DaemonSetStatusViewer_Status Inr agent 0) \<and>
   error_of (DaemonSetStatusViewer_Status Inr agent 0) = None \<and>
   done_of (DaemonSetStatusViewer_Status Inr
              (agent\<lparr>DaemonSet.Spec_UpdateStrategy_Type := ''Recreate''\<rparr>) 0) \<and>
   error_of (DaemonSetStatusViewer_Status Inr
               (agent\<lparr>DaemonSet.Spec_UpdateStrategy_Type := ''Recreate''\<rparr>) 0) \<noteq> None"
  using C2_done_with_error_only_unsupported_strategy
          [where FromUnstructured_d = Inr and Revision = "\<lambda>d. Inr 0" and revision = 0
             and obj_d = "web\<lparr>Deployment.Status_UpdatedReplicas := 3,
                               Deployment.Status_AvailableReplicas := 3\<rparr>"
             and FromUnstructured_cs = Inr and obj_cs = clone
             and FromUnstructured_asts = Inr and obj_asts = adv
             and r = "(Sprintf ''Advanced StatefulSet rolling update complete %d pods at revision %s...\<newline>''
                         [D 5, S ''adv-2''], True, None)"
             and FromUnstructured_ds = Inr
             and obj_ds = "agent\<lparr>DaemonSet.Spec_UpdateStrategy_Type := ''Recreate''\<rparr>"
             and FromUnstructured_sts = Inr and obj_sts = db]
  by (simp add: DeploymentStatusViewer_Status_def Deployment_rollout_def Deployment_replicas_def
      CloneSetStatusViewer_Status_def AdvancedStatefulSetStatusViewer_Status_def
      AdvancedStatefulSet_rollout_def DaemonSetStatusViewer_Status_def
      progress_simps examples api_consts signed_simps)

subsection \<open>Revisions\<close>

text \<open>
  C3, as the claim states it, fails: the CloneSet evaluator never compares the revisions.
  The example CloneSet (4 replicas ready, partition 1, 3 updated, generation observed) is
  done although its update revision clone-2 is not its current revision clone-1.
\<close>

theorem C3_cloneset_done_revisions_differ_counterexample:
  "done_of (CloneSetStatusViewer_Status Inr clone 0) \<and>
   CloneSet.Status_UpdateRevision clone \<noteq> CloneSet.Status_CurrentRevision clone"
  by (simp add: CloneSetStatusViewer_Status_def api_consts progress_simps examples signed_simps)

text \<open>
  C3, amended. Only the StatefulSet evaluator compares the revisions, and only for a
  RollingUpdate snapshot without a rolling-update struct: there done=true holds exactly
  when the generation is observed, the ready replicas are not below the desired ones and
  updateRevision equals currentRevision. For a RollingUpdate StatefulSet with a
  rolling-update struct, for a CloneSet and for an Advanced StatefulSet on which the
  evaluator returns, done=true holds exactly when the generation is observed, the ready
  replicas are not below the desired ones and the partition check (where it applies) is
  met: the revisions are not compared. For a StatefulSet of another strategy type the
  evaluator returns done=true with the unsupported-strategy error, whatever the
  revisions.
\<close>

theorem C3_done_and_revisions:
  "(FromUnstructured_sts obj_sts = Inr sts \<and>
    StatefulSet.Spec_UpdateStrategy_Type sts = RollingUpdateStatefulSetStrategyType \<and>
    StatefulSet.Spec_UpdateStrategy_RollingUpdate sts = None \<longrightarrow>
    (done_of (StatefulSetStatusViewer_Status FromUnstructured_sts obj_sts revision) \<longleftrightarrow>
       StatefulSet.Status_ObservedGeneration sts \<noteq> 0 \<and>
       StatefulSet.Generation sts \<le>s StatefulSet.Status_ObservedGeneration sts \<and>
       (case StatefulSet.Spec_Replicas sts of
          None \<Rightarrow> True | Some n \<Rightarrow> n \<le>s StatefulSet.Status_ReadyReplicas sts) \<and>
       StatefulSet.Status_UpdateRevision sts = StatefulSet.Status_CurrentRevision sts)) \<and>
   (FromUnstructured_sts' obj_sts' = Inr sts' \<and>
    StatefulSet.Spec_UpdateStrategy_Type sts' = RollingUpdateStatefulSetStrategyType \<and>
    StatefulSet.Spec_UpdateStrategy_RollingUpdate sts' = Some ru \<longrightarrow>
    (done_of (StatefulSetStatusViewer_Status FromUnstructured_sts' obj_sts' revision) \<longleftrightarrow>
       StatefulSet.Status_ObservedGeneration sts' \<noteq> 0 \<and>
       StatefulSet.Generation sts' \<le>s StatefulSet.Status_ObservedGeneration sts' \<and>
       (case StatefulSet.Spec_Replicas sts' of
          None \<Rightarrow> True
        | Some n \<Rightarrow> n \<le>s StatefulSet.Status_ReadyReplicas sts' \<and>
            (case RollingUpdateStatefulSetStrategy.Partition ru of
               None \<Rightarrow> True | Some p \<Rightarrow> n - p \<le>s StatefulSet.Status_UpdatedReplicas sts')))) \<and>
   (FromUnstructured_cs obj_cs = Inr cs \<longrightarrow>
    (done_of (CloneSetStatusViewer_Status FromUnstructured_cs obj_cs revision) \<longleftrightarrow>
       CloneSet.Status_ObservedGeneration cs \<noteq> 0 \<and>
       CloneSet.Generation cs \<le>s CloneSet.Status_ObservedGeneration cs \<and>
       (case CloneSet.Spec_Replicas cs of
          None \<Rightarrow> True
        | Some n \<Rightarrow> n \<le>s CloneSet.Status_ReadyReplicas cs \<and>
            (case CloneSet.Spec_UpdateStrategy_Partition cs of
               None \<Rightarrow> True
             | Some p \<Rightarrow>
                 (CloneSet.Spec_UpdateStrategy_Type cs = InPlaceOnlyCloneSetUpdateStrategyType \<or>
                  CloneSet.Spec_UpdateStrategy_Type cs = InPlaceIfPossibleCloneSetUpdateStrategyType) \<longrightarrow>
                 n - IntVal p \<le>s CloneSet.Status_UpdatedReplicas cs)))) \<and>
   (FromUnstructured_asts obj_asts = Inr asts \<and>
    AdvancedStatefulSetStatusViewer_Status FromUnstructured_asts obj_asts revision = Inr r \<longrightarrow>
    (done_of r \<longleftrightarrow>
       AdvancedStatefulSet.Status_ObservedGeneration asts \<noteq> 0 \<and>
       AdvancedStatefulSet.Generation asts \<le>s AdvancedStatefulSet.Status_ObservedGeneration asts \<and>
       (case AdvancedStatefulSet.Spec_Replicas asts of
          None \<Rightarrow> True
        | Some n \<Rightarrow> n \<le>s AdvancedStatefulSet.Status_ReadyReplicas asts \<and>
            (AdvancedStatefulSet.Spec_UpdateStrategy_Type asts = RollingUpdateStatefulSetStrategyType \<longrightarrow>
             (case AdvancedRollingUpdateStatefulSetStrategy.Partition
                     (the (AdvancedStatefulSet.Spec_UpdateStrategy_RollingUpdate asts)) of
                None \<Rightarrow> True
              | Some p \<Rightarrow> n - p \<le>s AdvancedStatefulSet.Status_UpdatedReplicas asts))))) \<and>
   (FromUnstructured_other obj_other = Inr other \<and>
    StatefulSet.Spec_UpdateStrategy_Type other \<noteq> RollingUpdateStatefulSetStrategyType \<longrightarrow>
    StatefulSetStatusViewer_Status FromUnstructured_other obj_other revision =
      (Lit [], True, Some (UnsupportedStrategy RollingUpdateStatefulSetStrategyType)))"
  apply (intro conjI impI)
  subgoal by (auto simp: StatefulSetStatusViewer_Status_def progress_simps signed.not_less
        split: option.splits)
  subgoal by (auto simp: StatefulSetStatusViewer_Status_def progress_simps signed.not_less
        split: option.splits)
  subgoal by (auto simp: CloneSetStatusViewer_Status_def progress_simps signed.not_less
        split: option.splits)
  subgoal by (auto simp: AdvancedStatefulSetStatusViewer_Status_def AdvancedStatefulSet_rollout_def
        progress_simps signed.not_less split: option.splits if_splits)
  subgoal by (simp add: StatefulSetStatusViewer_Status_def)
  done

theorem C3_done_and_revisions_witness:
  "\<not> done_of (StatefulSetStatusViewer_Status Inr
                (db\<lparr>StatefulSet.Spec_UpdateStrategy_RollingUpdate := None\<rparr>) 0) \<and>
   done_of (StatefulSetStatusViewer_Status Inr db 0) \<and>
   done_of (CloneSetStatusViewer_Status Inr clone 0) \<and>
   AdvancedStatefulSetStatusViewer_Status Inr adv 0 =
     Inr (Sprintf ''Advanced StatefulSet rolling update complete %d pods at revision %s...\<newline>''
            [D 5, S ''adv-2''], True, None) \<and>
   StatefulSetStatusViewer_Status Inr
     (db\<lparr>StatefulSet.Spec_UpdateStrategy_Type := ''OnDelete'', StatefulSet.Generation := 3\<rparr>) 0 =
     (Lit [], True, Some (UnsupportedStrategy ''RollingUpdate''))"
  using C3_done_and_revisions
          [where FromUnstructured_sts = Inr
             and obj_sts = "db\<lparr>StatefulSet.Spec_UpdateStrategy_RollingUpdate := None\<rparr>"
             and sts = "db\<lparr>StatefulSet.Spec_UpdateStrategy_RollingUpdate := None\<rparr>"
             and FromUnstructured_sts' = Inr and obj_sts' = db and sts' = db
             and ru = "\<lparr>RollingUpdateStatefulSetStrategy.Partition = Some 2\<rparr>"
             and FromUnstructured_cs = Inr and obj_cs = clone and cs = clone
             and FromUnstructured_asts = Inr and obj_asts = adv and asts = adv
             and revision = 0
             and FromUnstructured_other = Inr
             and obj_other = "db\<lparr>StatefulSet.Spec_UpdateStrategy_Type := ''OnDelete'',
                                 StatefulSet.Generation := 3\<rparr>"
             and other = "db\<lparr>StatefulSet.Spec_UpdateStrategy_Type := ''OnDelete'',
                               StatefulSet.Generation := 3\<rparr>"
             and r = "(Sprintf ''Advanced StatefulSet rolling update complete %d pods at revision %s...\<newline>''
                         [D 5, S ''adv-2''], True, None)"]
  by (simp add: AdvancedStatefulSetStatusViewer_Status_def AdvancedStatefulSet_rollout_def
      examples api_consts signed_simps)

subsection \<open>Partitions\<close>

text \<open>
  The target of a partitioned rollout is computed in \<open>int32\<close>; for the replica counts
  and partitions of a real object, which are not negative, it is the difference of the
  two numbers.
\<close>

lemma sint_sub_nonneg:
  fixes n p :: int32
  assumes "0 \<le>s n" "0 \<le>s p"
  shows "sint (n - p) = sint n - sint p"
proof -
  have n: "0 \<le> sint n" "sint n < 2 ^ 31"
    using assms(1) sint_lt [of n] by (simp_all add: word_sle_eq)
  have p: "0 \<le> sint p" "sint p < 2 ^ 31"
    using assms(2) sint_lt [of p] by (simp_all add: word_sle_eq)
  have "- (2 ^ 31) \<le> sint n - sint p" "sint n - sint p < 2 ^ 31"
    using n p by simp_all
  then have "signed_take_bit 31 (sint n - sint p) = sint n - sint p"
    by (simp add: signed_take_bit_int_eq_self)
  then show ?thesis
    by (simp add: sint_word_ariths)
qed

text \<open>
  C4. For a StatefulSet with the RollingUpdate strategy, a partition \<open>p\<close> and \<open>n\<close>
  desired replicas, the target of the rollout is \<open>n - p\<close>: the evaluator reports the
  partition shortfall "updated out of \<open>n - p\<close>" with done=false exactly while
  updatedReplicas is below \<open>n - p\<close> (the checks that come before, generation observed
  and ready replicas not below \<open>n\<close>, being passed), and done=true exactly when those
  checks are passed and updatedReplicas has reached \<open>n - p\<close>, whatever the revisions and
  the other counts. For a CloneSet with an in-place strategy, a partition and \<open>m\<close>
  desired replicas, the partition check comes first: the shortfall message with
  done=false is returned exactly while updatedReplicas is below \<open>m - partition\<close>, and
  from then on done=true holds as soon as the generation is observed and the ready
  replicas are not below \<open>m\<close>; the Advanced StatefulSet with the RollingUpdate strategy
  does the same. The target \<open>n - p\<close> is the difference of the two numbers when neither
  is negative.
\<close>

theorem C4_partition_target:
  "(FromUnstructured_sts obj_sts = Inr sts \<and>
    StatefulSet.Spec_UpdateStrategy_Type sts = RollingUpdateStatefulSetStrategyType \<and>
    StatefulSet.Spec_UpdateStrategy_RollingUpdate sts = Some ru \<and>
    RollingUpdateStatefulSetStrategy.Partition ru = Some p \<and>
    StatefulSet.Spec_Replicas sts = Some n \<longrightarrow>
    (StatefulSetStatusViewer_Status FromUnstructured_sts obj_sts revision =
       (Sprintf ''Waiting for partitioned roll out to finish: %d out of %d new pods have been updated...\<newline>''
          [D (StatefulSet.Status_UpdatedReplicas sts), D (n - p)], False, None) \<longleftrightarrow>
     StatefulSet.Status_ObservedGeneration sts \<noteq> 0 \<and>
     StatefulSet.Generation sts \<le>s StatefulSet.Status_ObservedGeneration sts \<and>
     n \<le>s StatefulSet.Status_ReadyReplicas sts \<and>
     StatefulSet.Status_UpdatedReplicas sts <s n - p) \<and>
    (StatefulSetStatusViewer_Status FromUnstructured_sts obj_sts revision =
       (Sprintf ''partitioned roll out complete: %d new pods have been updated...\<newline>''
          [D (StatefulSet.Status_UpdatedReplicas sts)], True, None) \<longleftrightarrow>
     StatefulSet.Status_ObservedGeneration sts \<noteq> 0 \<and>
     StatefulSet.Generation sts \<le>s StatefulSet.Status_ObservedGeneration sts \<and>
     n \<le>s StatefulSet.Status_ReadyReplicas sts \<and>
     n - p \<le>s StatefulSet.Status_UpdatedReplicas sts) \<and>
    (done_of (StatefulSetStatusViewer_Status FromUnstructured_sts obj_sts revision) \<longleftrightarrow>
     StatefulSet.Status_ObservedGeneration sts \<noteq> 0 \<and>
     StatefulSet.Generation sts \<le>s StatefulSet.Status_ObservedGeneration sts \<and>
     n \<le>s StatefulSet.Status_ReadyReplicas sts \<and>
     n - p \<le>s StatefulSet.Status_UpdatedReplicas sts)) \<and>
   (FromUnstructured_cs obj_cs = Inr cs \<and>
    (CloneSet.Spec_UpdateStrategy_Type cs = InPlaceOnlyCloneSetUpdateStrategyType \<or>
     CloneSet.Spec_UpdateStrategy_Type cs = InPlaceIfPossibleCloneSetUpdateStrategyType) \<and>
    CloneSet.Spec_UpdateStrategy_Partition cs = Some q \<and>
    CloneSet.Spec_Replicas cs = Some m \<longrightarrow>
    (if CloneSet.Status_UpdatedReplicas cs <s m - IntVal q
     then CloneSetStatusViewer_Status FromUnstructured_cs obj_cs revision =
       (Sprintf ''Waiting for partitioned roll out to finish: %d out of %d new pods have been updated...\<newline>''
          [D (CloneSet.Status_UpdatedReplicas cs), D (m - IntVal q)], False, None)
     else
       (\<forall>args. message_of (CloneSetStatusViewer_Status FromUnstructured_cs obj_cs revision) \<noteq>
          Sprintf ''Waiting for partitioned roll out to finish: %d out of %d new pods have been updated...\<newline>'' args) \<and>
       (done_of (CloneSetStatusViewer_Status FromUnstructured_cs obj_cs revision) \<longleftrightarrow>
          CloneSet.Status_ObservedGeneration cs \<noteq> 0 \<and>
          CloneSet.Generation cs \<le>s CloneSet.Status_ObservedGeneration cs \<and>
          m \<le>s CloneSet.Status_ReadyReplicas cs))) \<and>
   (FromUnstructured_asts obj_asts = Inr asts \<and>
    AdvancedStatefulSet.Spec_UpdateStrategy_Type asts = RollingUpdateStatefulSetStrategyType \<and>
    AdvancedStatefulSet.Spec_UpdateStrategy_RollingUpdate asts = Some aru \<and>
    AdvancedRollingUpdateStatefulSetStrategy.Partition aru = Some k \<and>
    AdvancedStatefulSet.Spec_Replicas asts = Some l \<longrightarrow>
    (if AdvancedStatefulSet.Status_UpdatedReplicas asts <s l - k
     then AdvancedStatefulSetStatusViewer_Status FromUnstructured_asts obj_asts revision =
       Inr (Sprintf ''Waiting for partitioned roll out to finish:%d out of %d new pods has been updated...\<newline>''
              [D (AdvancedStatefulSet.Status_UpdatedReplicas asts), D (l - k)], False, None)
     else
       AdvancedStatefulSetStatusViewer_Status FromUnstructured_asts obj_asts revision =
         Inr (AdvancedStatefulSet_rollout asts) \<and>
       (\<forall>args. message_of (AdvancedStatefulSet_rollout asts) \<noteq>
          Sprintf ''Waiting for partitioned roll out to finish:%d out of %d new pods has been updated...\<newline>'' args) \<and>
       (done_of (AdvancedStatefulSet_rollout asts) \<longleftrightarrow>
          AdvancedStatefulSet.Status_ObservedGeneration asts \<noteq> 0 \<and>
          AdvancedStatefulSet.Generation asts \<le>s AdvancedStatefulSet.Status_ObservedGeneration asts \<and>
          l \<le>s AdvancedStatefulSet.Status_ReadyReplicas asts))) \<and>
   (0 \<le>s n \<and> 0 \<le>s p \<longrightarrow> sint (n - p) = sint n - sint p)"
  apply (intro conjI impI)
  subgoal by (auto simp: StatefulSetStatusViewer_Status_def signed.not_less)
  subgoal by (auto simp: StatefulSetStatusViewer_Status_def signed.not_less)
  subgoal by (auto simp: StatefulSetStatusViewer_Status_def progress_simps signed.not_less)
  subgoal by (auto simp: CloneSetStatusViewer_Status_def progress_simps signed.not_less)
  subgoal by (auto simp: AdvancedStatefulSetStatusViewer_Status_def AdvancedStatefulSet_rollout_def
        progress_simps signed.not_less)
  subgoal by (simp add: sint_sub_nonneg)
  done

text \<open>
  The StatefulSet of the claim: 5 desired replicas, partition 2. With 3 updated replicas
  it is done, although its update revision is not its current revision; with 2 it reports
  the shortfall "2 out of 3". The CloneSet of the specification: 4 replicas, partition 1,
  3 updated replicas.
\<close>

theorem C4_partition_target_witness:
  "StatefulSet.Spec_Replicas db = Some 5 \<and>
   StatefulSet.Spec_UpdateStrategy_RollingUpdate db =
     Some \<lparr>RollingUpdateStatefulSetStrategy.Partition = Some 2\<rparr> \<and>
   StatefulSet.Status_UpdatedReplicas db = 3 \<and>
   StatefulSet.Status_UpdateRevision db \<noteq> StatefulSet.Status_CurrentRevision db \<and>
   StatefulSetStatusViewer_Status Inr db 0 =
     (Sprintf ''partitioned roll out complete: %d new pods have been updated...\<newline>'' [D 3], True, None) \<and>
   StatefulSetStatusViewer_Status Inr (db\<lparr>StatefulSet.Status_UpdatedReplicas := 2\<rparr>) 0 =
     (Sprintf ''Waiting for partitioned roll out to finish: %d out of %d new pods have been updated...\<newline>''
        [D 2, D 3], False, None) \<and>
   done_of (CloneSetStatusViewer_Status Inr clone 0) \<and>
   AdvancedStatefulSetStatusViewer_Status Inr adv 0 = Inr (AdvancedStatefulSet_rollout adv) \<and>
   done_of (AdvancedStatefulSet_rollout adv) \<and>
   sint ((5 :: int32) - 2) = 3"
  using C4_partition_target
          [where FromUnstructured_sts = Inr and obj_sts = db and sts = db
             and ru = "\<lparr>RollingUpdateStatefulSetStrategy.Partition = Some 2\<rparr>"
             and p = 2 and n = 5 and revision = 0
             and FromUnstructured_cs = Inr and obj_cs = clone and cs = clone
             and q = "\<lparr>IntOrString.Type = 0, IntVal = 1, StrVal = []\<rparr>" and m = 4
             and FromUnstructured_asts = Inr and obj_asts = adv and asts = adv
             and aru = "\<lparr>AdvancedRollingUpdateStatefulSetStrategy.Partition = Some 2\<rparr>"
             and k = 2 and l = 5]
        C4_partition_target
          [where FromUnstructured_sts = Inr
             and obj_sts = "db\<lparr>StatefulSet.Status_UpdatedReplicas := 2\<rparr>"
             and sts = "db\<lparr>StatefulSet.Status_UpdatedReplicas := 2\<rparr>"
             and ru = "\<lparr>RollingUpdateStatefulSetStrategy.Partition = Some 2\<rparr>"
             and p = 2 and n = 5 and revision = 0
             and FromUnstructured_cs = Inr and obj_cs = clone and cs = clone
             and q = "\<lparr>IntOrString.Type = 0, IntVal = 1, StrVal = []\<rparr>" and m = 4
             and FromUnstructured_asts = Inr and obj_asts = adv and asts = adv
             and aru = "\<lparr>AdvancedRollingUpdateStatefulSetStrategy.Partition = Some 2\<rparr>"
             and k = 2 and l = 5]
  by (simp add: examples api_consts signed_simps)

subsection \<open>Order of the Deployment's replica checks\<close>

text \<open>
  C5, as the claim states it, fails: the progress deadline is checked before the
  replicas (lines 91 to 94). A Deployment with its generation observed, 3 desired, 1
  updated and 1 available replicas, whose Progressing condition has the reason
  ProgressDeadlineExceeded, gets the deadline error and not the message "1 out of 3
  new replicas have been updated".
\<close>

theorem C5_deadline_before_replica_checks_counterexample:
  "Deployment.Generation
     (web\<lparr>Deployment.Name := ''api'', Deployment.Status_Conditions :=
            [\<lparr>DeploymentCondition.Type = ''Progressing'', Reason = ''ProgressDeadlineExceeded''\<rparr>]\<rparr>)
     \<le>s Deployment.Status_ObservedGeneration
          (web\<lparr>Deployment.Name := ''api'', Deployment.Status_Conditions :=
                 [\<lparr>DeploymentCondition.Type = ''Progressing'', Reason = ''ProgressDeadlineExceeded''\<rparr>]\<rparr>) \<and>
   Deployment.Spec_Replicas
     (web\<lparr>Deployment.Name := ''api'', Deployment.Status_Conditions :=
            [\<lparr>DeploymentCondition.Type = ''Progressing'', Reason = ''ProgressDeadlineExceeded''\<rparr>]\<rparr>)
     = Some 3 \<and>
   Deployment.Status_UpdatedReplicas
     (web\<lparr>Deployment.Name := ''api'', Deployment.Status_Conditions :=
            [\<lparr>DeploymentCondition.Type = ''Progressing'', Reason = ''ProgressDeadlineExceeded''\<rparr>]\<rparr>)
     = 1 \<and>
   Deployment.Status_AvailableReplicas
     (web\<lparr>Deployment.Name := ''api'', Deployment.Status_Conditions :=
            [\<lparr>DeploymentCondition.Type = ''Progressing'', Reason = ''ProgressDeadlineExceeded''\<rparr>]\<rparr>)
     = 1 \<and>
   DeploymentStatusViewer_Status Inr (\<lambda>d. Inr 0)
     (web\<lparr>Deployment.Name := ''api'', Deployment.Status_Conditions :=
            [\<lparr>DeploymentCondition.Type = ''Progressing'', Reason = ''ProgressDeadlineExceeded''\<rparr>]\<rparr>) 0
     = (Lit [], False, Some (ProgressDeadlineExceeded ''api''))"
  by (simp add: DeploymentStatusViewer_Status_def Deployment_rollout_def api_consts examples signed_simps)

text \<open>
  C5, amended. For a decoded Deployment whose generation is observed, whose revision
  check passes (the target revision is not positive or is the running revision) and
  whose Progressing condition does not report an exceeded deadline, the replica checks
  are made in the order (a) updated replicas below the desired ones, when the desired
  number is set, (b) replicas above the updated ones, (c) available replicas below the
  updated ones; the first that is unmet gives its own message with done=false, and the
  rollout is done when all are met. In particular 3 desired, 1 updated and 1 available
  replicas then give the message "1 out of 3 new replicas have been updated" with
  done=false, whatever the total number of replicas.
\<close>

theorem C5_deployment_check_order:
  "FromUnstructured obj = Inr deployment \<and>
   (\<not> 0 <s revision \<or> Revision deployment = Inr revision) \<and>
   Deployment.Generation deployment \<le>s Deployment.Status_ObservedGeneration deployment \<and>
   (case GetDeploymentCondition (Deployment.Status_Conditions deployment) DeploymentProgressing of
      None \<Rightarrow> True | Some cond \<Rightarrow> DeploymentCondition.Reason cond \<noteq> TimedOutReason) \<longrightarrow>
   DeploymentStatusViewer_Status FromUnstructured Revision obj revision =
     (if (case Deployment.Spec_Replicas deployment of
            None \<Rightarrow> False | Some n \<Rightarrow> Deployment.Status_UpdatedReplicas deployment <s n)
      then (Sprintf ''Waiting for deployment %q rollout to finish: %d out of %d new replicas have been updated...\<newline>''
              [Q (Deployment.Name deployment), D (Deployment.Status_UpdatedReplicas deployment),
               D (the (Deployment.Spec_Replicas deployment))], False, None)
      else if Deployment.Status_UpdatedReplicas deployment <s Deployment.Status_Replicas deployment
      then (Sprintf ''Waiting for deployment %q rollout to finish: %d old replicas are pending termination...\<newline>''
              [Q (Deployment.Name deployment),
               D (Deployment.Status_Replicas deployment - Deployment.Status_UpdatedReplicas deployment)],
            False, None)
      else if Deployment.Status_AvailableReplicas deployment <s Deployment.Status_UpdatedReplicas deployment
      then (Sprintf ''Waiting for deployment %q rollout to finish: %d of %d updated replicas are available...\<newline>''
              [Q (Deployment.Name deployment), D (Deployment.Status_AvailableReplicas deployment),
               D (Deployment.Status_UpdatedReplicas deployment)], False, None)
      else (Sprintf ''deployment %q successfully rolled out\<newline>'' [Q (Deployment.Name deployment)],
            True, None)) \<and>
   (Deployment.Spec_Replicas deployment = Some 3 \<and>
    Deployment.Status_UpdatedReplicas deployment = 1 \<and>
    Deployment.Status_AvailableReplicas deployment = 1 \<longrightarrow>
    DeploymentStatusViewer_Status FromUnstructured Revision obj revision =
      (Sprintf ''Waiting for deployment %q rollout to finish: %d out of %d new replicas have been updated...\<newline>''
         [Q (Deployment.Name deployment), D 1, D 3], False, None))"
  by (auto simp: DeploymentStatusViewer_Status_def Deployment_rollout_def Deployment_replicas_def
      signed_simps split: option.splits)

text \<open>
  The Deployment of the specification's scenario, then the same with all 3 replicas
  updated and 4 replicas in total (one old replica pending termination although only 1
  is available), with 3 replicas in total (1 of 3 updated replicas available), and
  converged.
\<close>

theorem C5_deployment_check_order_witness:
  "Deployment.Spec_Replicas web = Some 3 \<and> Deployment.Status_UpdatedReplicas web = 1 \<and>
   Deployment.Status_AvailableReplicas web = 1 \<and>
   Deployment.Generation web \<le>s Deployment.Status_ObservedGeneration web \<and>
   DeploymentStatusViewer_Status Inr (\<lambda>d. Inr 4) web 4 =
     (Sprintf ''Waiting for deployment %q rollout to finish: %d out of %d new replicas have been updated...\<newline>''
        [Q ''web'', D 1, D 3], False, None) \<and>
   DeploymentStatusViewer_Status Inr (\<lambda>d. Inr 4)
     (web\<lparr>Deployment.Status_UpdatedReplicas := 3, Deployment.Status_Replicas := 4\<rparr>) 4 =
     (Sprintf ''Waiting for deployment %q rollout to finish: %d old replicas are pending termination...\<newline>''
        [Q ''web'', D 1], False, None) \<and>
   DeploymentStatusViewer_Status Inr (\<lambda>d. Inr 4) (web\<lparr>Deployment.Status_UpdatedReplicas := 3\<rparr>) 4 =
     (Sprintf ''Waiting for deployment %q rollout to finish: %d of %d updated replicas are available...\<newline>''
        [Q ''web'', D 1, D 3], False, None) \<and>
   DeploymentStatusViewer_Status Inr (\<lambda>d. Inr 4)
     (web\<lparr>Deployment.Status_UpdatedReplicas := 3, Deployment.Status_AvailableReplicas := 3\<rparr>) 4 =
     (Sprintf ''deployment %q successfully rolled out\<newline>'' [Q ''web''], True, None)"
  using C5_deployment_check_order
          [where FromUnstructured = Inr and Revision = "\<lambda>d. Inr 4" and revision = 4
             and obj = web and deployment = web]
        C5_deployment_check_order
          [where FromUnstructured = Inr and Revision = "\<lambda>d. Inr 4" and revision = 4
             and obj = "web\<lparr>Deployment.Status_UpdatedReplicas := 3, Deployment.Status_Replicas := 4\<rparr>"
             and deployment = "web\<lparr>Deployment.Status_UpdatedReplicas := 3, Deployment.Status_Replicas := 4\<rparr>"]
        C5_deployment_check_order
          [where FromUnstructured = Inr and Revision = "\<lambda>d. Inr 4" and revision = 4
             and obj = "web\<lparr>Deployment.Status_UpdatedReplicas := 3\<rparr>"
             and deployment = "web\<lparr>Deployment.Status_UpdatedReplicas := 3\<rparr>"]
        C5_deployment_check_order
          [where FromUnstructured = Inr and Revision = "\<lambda>d. Inr 4" and revision = 4
             and obj = "web\<lparr>Deployment.Status_UpdatedReplicas := 3,
                             Deployment.Status_AvailableReplicas := 3\<rparr>"
             and deployment = "web\<lparr>Deployment.Status_UpdatedReplicas := 3,
                                    Deployment.Status_AvailableReplicas := 3\<rparr>"]
  by (simp add: examples api_consts signed_simps)

subsection \<open>The progress deadline\<close>

text \<open>
  C6, as the claim states it, fails: the Deployment evaluator reads the Progressing
  condition of the snapshot and returns an error when its reason is
  ProgressDeadlineExceeded (lines 91 to 94).
\<close>

theorem C6_deployment_deadline_counterexample:
  "DeploymentStatusViewer_Status Inr (\<lambda>d. Inr 0)
     (web\<lparr>Deployment.Status_Conditions :=
            [\<lparr>DeploymentCondition.Type = ''Progressing'', Reason = ''ProgressDeadlineExceeded''\<rparr>]\<rparr>) 0
   = (Lit [], False, Some (ProgressDeadlineExceeded ''web''))"
  by (simp add: DeploymentStatusViewer_Status_def Deployment_rollout_def api_consts examples signed_simps)

text \<open>
  C6, amended. The Deployment evaluator detects an exceeded progress deadline itself: it
  returns the error "deployment exceeded its progress deadline" (with done=false) exactly
  when the object decodes, the revision check passes, the generation is observed and the
  first Progressing condition of the snapshot has the reason ProgressDeadlineExceeded.
  The DaemonSet, StatefulSet, CloneSet and Advanced StatefulSet evaluators never return
  that error.
\<close>

theorem C6_progress_deadline_only_deployment:
  "(DeploymentStatusViewer_Status FromUnstructured_d Revision obj_d revision
      = (Lit [], False, Some (ProgressDeadlineExceeded name)) \<longleftrightarrow>
    error_of (DeploymentStatusViewer_Status FromUnstructured_d Revision obj_d revision)
      = Some (ProgressDeadlineExceeded name)) \<and>
   (error_of (DeploymentStatusViewer_Status FromUnstructured_d Revision obj_d revision)
      = Some (ProgressDeadlineExceeded name) \<longleftrightarrow>
    (case FromUnstructured_d obj_d of
       Inl e \<Rightarrow> False
     | Inr deployment \<Rightarrow>
         (\<not> 0 <s revision \<or> Revision deployment = Inr revision) \<and>
         Deployment.Generation deployment \<le>s Deployment.Status_ObservedGeneration deployment \<and>
         (case GetDeploymentCondition (Deployment.Status_Conditions deployment) DeploymentProgressing of
            None \<Rightarrow> False | Some cond \<Rightarrow> DeploymentCondition.Reason cond = TimedOutReason) \<and>
         name = Deployment.Name deployment)) \<and>
   error_of (DaemonSetStatusViewer_Status FromUnstructured_ds obj_ds revision)
     \<noteq> Some (ProgressDeadlineExceeded name) \<and>
   error_of (StatefulSetStatusViewer_Status FromUnstructured_sts obj_sts revision)
     \<noteq> Some (ProgressDeadlineExceeded name) \<and>
   error_of (CloneSetStatusViewer_Status FromUnstructured_cs obj_cs revision)
     \<noteq> Some (ProgressDeadlineExceeded name) \<and>
   AdvancedStatefulSetStatusViewer_Status FromUnstructured_asts obj_asts revision
     \<noteq> Inr (m, b, Some (ProgressDeadlineExceeded name))"
  apply (intro conjI)
  subgoal by (auto simp: DeploymentStatusViewer_Status_def Deployment_rollout_def Deployment_replicas_def
        progress_simps split: sum.splits option.splits)
  subgoal by (auto simp: DeploymentStatusViewer_Status_def Deployment_rollout_def Deployment_replicas_def
        progress_simps split: sum.splits option.splits)
  subgoal by (simp add: DaemonSetStatusViewer_Status_def progress_simps split: sum.splits)
  subgoal by (simp add: StatefulSetStatusViewer_Status_def progress_simps split: sum.splits)
  subgoal by (simp add: CloneSetStatusViewer_Status_def progress_simps split: sum.splits)
  subgoal by (auto simp: AdvancedStatefulSetStatusViewer_Status_def AdvancedStatefulSet_rollout_def
        split: sum.splits option.splits if_splits)
  done

theorem C6_progress_deadline_only_deployment_witness:
  "error_of (DeploymentStatusViewer_Status Inr (\<lambda>d. Inr 4)
     (web\<lparr>Deployment.Status_Conditions :=
            [\<lparr>DeploymentCondition.Type = ''Available'', Reason = ''MinimumReplicasAvailable''\<rparr>,
             \<lparr>DeploymentCondition.Type = ''Progressing'', Reason = ''ProgressDeadlineExceeded''\<rparr>]\<rparr>) 4)
     = Some (ProgressDeadlineExceeded ''web'') \<and>
   error_of (DeploymentStatusViewer_Status Inr (\<lambda>d. Inr 4)
     (web\<lparr>Deployment.Status_Conditions :=
            [\<lparr>DeploymentCondition.Type = ''Progressing'', Reason = ''NewReplicaSetAvailable''\<rparr>]\<rparr>) 4)
     \<noteq> Some (ProgressDeadlineExceeded ''web'')"
  using C6_progress_deadline_only_deployment
          [where FromUnstructured_d = Inr and Revision = "\<lambda>d. Inr 4" and revision = 4
             and obj_d = "web\<lparr>Deployment.Status_Conditions :=
                [\<lparr>DeploymentCondition.Type = ''Available'', Reason = ''MinimumReplicasAvailable''\<rparr>,
                 \<lparr>DeploymentCondition.Type = ''Progressing'', Reason = ''ProgressDeadlineExceeded''\<rparr>]\<rparr>"
             and name = "''web''", THEN conjunct2, THEN conjunct1]
        C6_progress_deadline_only_deployment
          [where FromUnstructured_d = Inr and Revision = "\<lambda>d. Inr 4" and revision = 4
             and obj_d = "web\<lparr>Deployment.Status_Conditions :=
                [\<lparr>DeploymentCondition.Type = ''Progressing'', Reason = ''NewReplicaSetAvailable''\<rparr>]\<rparr>"
             and name = "''web''", THEN conjunct2, THEN conjunct1]
  by (simp add: examples api_consts signed_simps)

section \<open>Properties of GetFirstPod\<close>

text \<open>
  With the condition of GetFirstPod, \<open>UntilWithoutRetry\<close> returns the first Added or
  Modified event among the events received before the context is done, all events of
  the watch when there is no deadline.
\<close>

lemma UntilWithoutRetry_find:
  "UntilWithoutRetry ctx evs cl
     (\<lambda>event. (Event.Type event = Added \<or> Event.Type event = Modified, None)) lastEvent =
     (let received = (case ctx of None \<Rightarrow> evs | Some k \<Rightarrow> take k evs);
          lastReceived = (if received = [] then lastEvent else Some (last received))
      in case find (\<lambda>event. Event.Type event = Added \<or> Event.Type event = Modified) received of
           Some event \<Rightarrow> Some (Some event, None)
         | None \<Rightarrow>
             (case ctx of
                Some k \<Rightarrow>
                  Some (lastReceived,
                        Some (if length evs < k \<and> cl then ErrWatchClosed else ErrWaitTimeout))
              | None \<Rightarrow> if cl then Some (lastReceived, Some ErrWatchClosed) else None))"
proof (induction evs arbitrary: ctx lastEvent)
  case Nil
  then show ?case
    by (cases ctx) (auto simp: Let_def)
next
  case (Cons ev evs)
  show ?case
  proof (cases ctx)
    case None
    then show ?thesis
      using Cons.IH [of None "Some ev"] by (auto simp: Let_def split: option.splits)
  next
    case (Some k)
    show ?thesis
    proof (cases k)
      case 0
      then show ?thesis
        using Some by (simp add: Let_def)
    next
      case (Suc m)
      then show ?thesis
        using Some Cons.IH [of "Some m" "Some ev"]
        by (auto simp: Let_def split: option.splits)
    qed
  qed
qed

text \<open>
  Without a deadline (a timeout that is not positive), on a watch that stays open and
  delivers no Added or Modified event, GetFirstPod does not return.
\<close>

lemma GetFirstPod_without_deadline:
  "List (client namespace) \<lparr>LabelSelector = selector, ResourceVersion = []\<rparr> = Inr podList \<Longrightarrow>
   Items podList = [] \<Longrightarrow>
   Watch (client namespace)
     \<lparr>LabelSelector = selector, ResourceVersion = PodList.ResourceVersion podList\<rparr> = Inr w \<Longrightarrow>
   find (\<lambda>event. Event.Type event = Added \<or> Event.Type event = Modified) (events w) = None \<Longrightarrow>
   \<not> closed w \<Longrightarrow> \<not> 0 <s timeout \<Longrightarrow>
   GetFirstPod client namespace selector timeout sortBy expiry =
     ([ListCall namespace \<lparr>LabelSelector = selector, ResourceVersion = []\<rparr>,
       WatchCall namespace
         \<lparr>LabelSelector = selector, ResourceVersion = PodList.ResourceVersion podList\<rparr>],
      Blocks)"
  by (simp add: GetFirstPod_def ContextWithOptionalTimeout_def UntilWithoutRetry_find Let_def)

text \<open>
  C7, as the claim states it, fails. With an empty list, a watch that stays open and
  delivers no event, and the timeout 0, the context has no deadline and GetFirstPod
  never returns, neither a pod nor an error. And with a positive timeout the deadline
  races with the watch: when the select finds the context done first, GetFirstPod
  returns \<open>ErrWaitTimeout\<close> although an Added event for a pod is on the channel.
\<close>

theorem C7_no_deadline_blocks_counterexample:
  "GetFirstPod (watching_client \<lparr>events = [], closed = False\<rparr>) ''default'' ''app=web'' 0 sort 0 =
     ([ListCall ''default'' \<lparr>LabelSelector = ''app=web'', ResourceVersion = []\<rparr>,
       WatchCall ''default'' \<lparr>LabelSelector = ''app=web'', ResourceVersion = ''42''\<rparr>],
      Blocks) \<and>
   GetFirstPod
     (watching_client \<lparr>events = [\<lparr>Event.Type = ''ADDED'', Object = PodObject 7\<rparr>], closed = False\<rparr>)
     ''default'' ''app=web'' 1000 sort 0 =
     ([ListCall ''default'' \<lparr>LabelSelector = ''app=web'', ResourceVersion = []\<rparr>,
       WatchCall ''default'' \<lparr>LabelSelector = ''app=web'', ResourceVersion = ''42''\<rparr>,
       StopCall, StopCall],
      Returns (None, 0, Some ErrWaitTimeout))"
  by (simp add: GetFirstPod_def ContextWithOptionalTimeout_def watching_client_def signed_simps)

text \<open>
  C7, amended. An error of the list is returned as it is. When the list is not empty,
  GetFirstPod returns after the List call alone, without opening the watch: the first
  pod of the slice as the caller's ordering leaves it, with the number of listed pods
  and no error; when that ordering sorts the listed pods by \<open>Less\<close>, the pod is a listed
  pod that no other listed pod precedes. When the list is empty, GetFirstPod opens a
  watch from the list's resource version and returns the error of the watch when it
  cannot be opened. Otherwise, of the events it receives (with a positive timeout: the
  events received before the select finds the deadline passed; else all events of the
  watch),
  \<^item> the first Added or Modified event decides: its pod is returned with the count 1,
    the error "is not a pod event" when its object is not a pod;
  \<^item> without such an event and with a positive timeout, an error is returned:
    \<open>ErrWatchClosed\<close> when the channel closes before the deadline, \<open>ErrWaitTimeout\<close>
    when the deadline comes first, also with such an event still on the channel;
  \<^item> without such an event and with a timeout that is not positive, there is no
    deadline and nothing cancels the wait: \<open>ErrWatchClosed\<close> is returned when the
    channel closes, and on a watch that stays open the call does not return.
  Each time it returns after the watch was opened, the watcher has been stopped, twice.
\<close>

theorem C7_GetFirstPod_list_then_watch:
  "(List (client namespace) \<lparr>LabelSelector = selector, ResourceVersion = []\<rparr> = Inl e \<longrightarrow>
      GetFirstPod client namespace selector timeout sortBy expiry =
        ([ListCall namespace \<lparr>LabelSelector = selector, ResourceVersion = []\<rparr>],
         Returns (None, 0, Some e))) \<and>
   (List (client namespace) \<lparr>LabelSelector = selector, ResourceVersion = []\<rparr> = Inr podList \<and>
    Items podList \<noteq> [] \<and> sortBy (Items podList) \<noteq> [] \<longrightarrow>
      GetFirstPod client namespace selector timeout sortBy expiry =
        ([ListCall namespace \<lparr>LabelSelector = selector, ResourceVersion = []\<rparr>],
         Returns (Some (hd (sortBy (Items podList))), int (length (Items podList)), None)) \<and>
      (set (sortBy (Items podList)) = set (Items podList) \<and>
       sorted_wrt (\<lambda>a b. \<not> Less b a) (sortBy (Items podList)) \<longrightarrow>
         hd (sortBy (Items podList)) \<in> set (Items podList) \<and>
         (\<forall>q \<in> set (Items podList).
            q \<noteq> hd (sortBy (Items podList)) \<longrightarrow> \<not> Less q (hd (sortBy (Items podList)))))) \<and>
   (List (client namespace) \<lparr>LabelSelector = selector, ResourceVersion = []\<rparr> = Inr podList \<and>
    Items podList = [] \<longrightarrow>
      (case Watch (client namespace)
              \<lparr>LabelSelector = selector, ResourceVersion = PodList.ResourceVersion podList\<rparr> of
         Inl e \<Rightarrow>
           GetFirstPod client namespace selector timeout sortBy expiry =
             ([ListCall namespace \<lparr>LabelSelector = selector, ResourceVersion = []\<rparr>,
               WatchCall namespace
                 \<lparr>LabelSelector = selector, ResourceVersion = PodList.ResourceVersion podList\<rparr>],
              Returns (None, 0, Some e))
       | Inr w \<Rightarrow>
           (case find (\<lambda>event. Event.Type event = Added \<or> Event.Type event = Modified)
                   (if 0 <s timeout then take expiry (events w) else events w) of
              Some event \<Rightarrow>
                GetFirstPod client namespace selector timeout sortBy expiry =
                  ([ListCall namespace \<lparr>LabelSelector = selector, ResourceVersion = []\<rparr>,
                    WatchCall namespace
                      \<lparr>LabelSelector = selector, ResourceVersion = PodList.ResourceVersion podList\<rparr>,
                    StopCall, StopCall],
                   case Event.Object event of
                     PodObject pod \<Rightarrow> Returns (Some pod, 1, None)
                   | OtherEventObject \<Rightarrow> Returns (None, 0, Some NotAPodEvent))
            | None \<Rightarrow>
                GetFirstPod client namespace selector timeout sortBy expiry =
                  (if 0 <s timeout then
                     ([ListCall namespace \<lparr>LabelSelector = selector, ResourceVersion = []\<rparr>,
                       WatchCall namespace
                         \<lparr>LabelSelector = selector, ResourceVersion = PodList.ResourceVersion podList\<rparr>,
                       StopCall, StopCall],
                      Returns (None, 0,
                        Some (if length (events w) < expiry \<and> closed w
                              then ErrWatchClosed else ErrWaitTimeout)))
                   else if closed w then
                     ([ListCall namespace \<lparr>LabelSelector = selector, ResourceVersion = []\<rparr>,
                       WatchCall namespace
                         \<lparr>LabelSelector = selector, ResourceVersion = PodList.ResourceVersion podList\<rparr>,
                       StopCall, StopCall],
                      Returns (None, 0, Some ErrWatchClosed))
                   else
                     ([ListCall namespace \<lparr>LabelSelector = selector, ResourceVersion = []\<rparr>,
                       WatchCall namespace
                         \<lparr>LabelSelector = selector, ResourceVersion = PodList.ResourceVersion podList\<rparr>],
                      Blocks)))))"
proof (intro conjI impI)
  assume "List (client namespace) \<lparr>LabelSelector = selector, ResourceVersion = []\<rparr> = Inl e"
  then show "GetFirstPod client namespace selector timeout sortBy expiry =
        ([ListCall namespace \<lparr>LabelSelector = selector, ResourceVersion = []\<rparr>],
         Returns (None, 0, Some e))"
    by (simp add: GetFirstPod_def)
next
  assume a: "List (client namespace) \<lparr>LabelSelector = selector, ResourceVersion = []\<rparr> = Inr podList \<and>
    Items podList \<noteq> [] \<and> sortBy (Items podList) \<noteq> []"
  then show "GetFirstPod client namespace selector timeout sortBy expiry =
        ([ListCall namespace \<lparr>LabelSelector = selector, ResourceVersion = []\<rparr>],
         Returns (Some (hd (sortBy (Items podList))), int (length (Items podList)), None))"
    by (cases "sortBy (Items podList)") (simp_all add: GetFirstPod_def)
  assume s: "set (sortBy (Items podList)) = set (Items podList) \<and>
       sorted_wrt (\<lambda>a b. \<not> Less b a) (sortBy (Items podList))"
  obtain p ps where ps: "sortBy (Items podList) = p # ps"
    using a by (cases "sortBy (Items podList)") auto
  show "hd (sortBy (Items podList)) \<in> set (Items podList)"
    using s ps by (metis hd_in_set list.distinct(1))
  show "\<forall>q \<in> set (Items podList).
            q \<noteq> hd (sortBy (Items podList)) \<longrightarrow> \<not> Less q (hd (sortBy (Items podList)))"
  proof (intro ballI impI)
    fix q
    assume "q \<in> set (Items podList)" "q \<noteq> hd (sortBy (Items podList))"
    then have "q \<in> set ps"
      using s ps by auto
    then show "\<not> Less q (hd (sortBy (Items podList)))"
      using s ps by auto
  qed
next
  assume "List (client namespace) \<lparr>LabelSelector = selector, ResourceVersion = []\<rparr> = Inr podList \<and>
    Items podList = []"
  then show "case Watch (client namespace)
              \<lparr>LabelSelector = selector, ResourceVersion = PodList.ResourceVersion podList\<rparr> of
         Inl e \<Rightarrow>
           GetFirstPod client namespace selector timeout sortBy expiry =
             ([ListCall namespace \<lparr>LabelSelector = selector, ResourceVersion = []\<rparr>,
               WatchCall namespace
                 \<lparr>LabelSelector = selector, ResourceVersion = PodList.ResourceVersion podList\<rparr>],
              Returns (None, 0, Some e))
       | Inr w \<Rightarrow>
           (case find (\<lambda>event. Event.Type event = Added \<or> Event.Type event = Modified)
                   (if 0 <s timeout then take expiry (events w) else events w) of
              Some event \<Rightarrow>
                GetFirstPod client namespace selector timeout sortBy expiry =
                  ([ListCall namespace \<lparr>LabelSelector = selector, ResourceVersion = []\<rparr>,
                    WatchCall namespace
                      \<lparr>LabelSelector = selector, ResourceVersion = PodList.ResourceVersion podList\<rparr>,
                    StopCall, StopCall],
                   case Event.Object event of
                     PodObject pod \<Rightarrow> Returns (Some pod, 1, None)
                   | OtherEventObject \<Rightarrow> Returns (None, 0, Some NotAPodEvent))
            | None \<Rightarrow>
                GetFirstPod client namespace selector timeout sortBy expiry =
                  (if 0 <s timeout then
                     ([ListCall namespace \<lparr>LabelSelector = selector, ResourceVersion = []\<rparr>,
                       WatchCall namespace
                         \<lparr>LabelSelector = selector, ResourceVersion = PodList.ResourceVersion podList\<rparr>,
                       StopCall, StopCall],
                      Returns (None, 0,
                        Some (if length (events w) < expiry \<and> closed w
                              then ErrWatchClosed else ErrWaitTimeout)))
                   else if closed w then
                     ([ListCall namespace \<lparr>LabelSelector = selector, ResourceVersion = []\<rparr>,
                       WatchCall namespace
                         \<lparr>LabelSelector = selector, ResourceVersion = PodList.ResourceVersion podList\<rparr>,
                       StopCall, StopCall],
                      Returns (None, 0, Some ErrWatchClosed))
                   else
                     ([ListCall namespace \<lparr>LabelSelector = selector, ResourceVersion = []\<rparr>,
                       WatchCall namespace
                         \<lparr>LabelSelector = selector, ResourceVersion = PodList.ResourceVersion podList\<rparr>],
                      Blocks)))"
    by (auto simp: GetFirstPod_def ContextWithOptionalTimeout_def UntilWithoutRetry_find Let_def
        split: sum.splits option.splits event_object.splits)
qed

text \<open>
  Three listed pods; then an empty list and a watch that delivers a Deleted and an
  Added event, with the deadline after them and with the deadline after the first of
  them; then a watch that delivers only the Deleted event and stays open; and a watch
  that closes, without a deadline.
\<close>

theorem C7_GetFirstPod_list_then_watch_witness:
  "GetFirstPod listing_client ''default'' ''app=web'' 1000 sort 0 =
     ([ListCall ''default'' \<lparr>LabelSelector = ''app=web'', ResourceVersion = []\<rparr>],
      Returns (Some 1, 3, None)) \<and>
   GetFirstPod
     (watching_client
        \<lparr>events = [\<lparr>Event.Type = ''DELETED'', Object = PodObject 5\<rparr>,
                   \<lparr>Event.Type = ''ADDED'', Object = PodObject 7\<rparr>],
         closed = False\<rparr>) ''default'' ''app=web'' 1000 sort 5 =
     ([ListCall ''default'' \<lparr>LabelSelector = ''app=web'', ResourceVersion = []\<rparr>,
       WatchCall ''default'' \<lparr>LabelSelector = ''app=web'', ResourceVersion = ''42''\<rparr>,
       StopCall, StopCall],
      Returns (Some 7, 1, None)) \<and>
   GetFirstPod
     (watching_client
        \<lparr>events = [\<lparr>Event.Type = ''DELETED'', Object = PodObject 5\<rparr>,
                   \<lparr>Event.Type = ''ADDED'', Object = PodObject 7\<rparr>],
         closed = False\<rparr>) ''default'' ''app=web'' 1000 sort 1 =
     ([ListCall ''default'' \<lparr>LabelSelector = ''app=web'', ResourceVersion = []\<rparr>,
       WatchCall ''default'' \<lparr>LabelSelector = ''app=web'', ResourceVersion = ''42''\<rparr>,
       StopCall, StopCall],
      Returns (None, 0, Some ErrWaitTimeout)) \<and>
   GetFirstPod
     (watching_client \<lparr>events = [\<lparr>Event.Type = ''DELETED'', Object = PodObject 5\<rparr>], closed = False\<rparr>)
     ''default'' ''app=web'' 1000 sort 9 =
     ([ListCall ''default'' \<lparr>LabelSelector = ''app=web'', ResourceVersion = []\<rparr>,
       WatchCall ''default'' \<lparr>LabelSelector = ''app=web'', ResourceVersion = ''42''\<rparr>,
       StopCall, StopCall],
      Returns (None, 0, Some ErrWaitTimeout)) \<and>
   GetFirstPod
     (watching_client \<lparr>events = [\<lparr>Event.Type = ''DELETED'', Object = PodObject 5\<rparr>], closed = True\<rparr>)
     ''default'' ''app=web'' 0 sort 0 =
     ([ListCall ''default'' \<lparr>LabelSelector = ''app=web'', ResourceVersion = []\<rparr>,
       WatchCall ''default'' \<lparr>LabelSelector = ''app=web'', ResourceVersion = ''42''\<rparr>,
       StopCall, StopCall],
      Returns (None, 0, Some ErrWatchClosed))"
  using C7_GetFirstPod_list_then_watch
          [where client = listing_client and namespace = "''default''" and selector = "''app=web''"
             and timeout = 1000 and sortBy = sort and Less = "(<)" and expiry = 0
             and podList = "\<lparr>Items = [3, 1, 2], ResourceVersion = ''41''\<rparr>"
             and e = "ClientError []"]
        C7_GetFirstPod_list_then_watch
          [where client = "watching_client
                   \<lparr>events = [\<lparr>Event.Type = ''DELETED'', Object = PodObject 5\<rparr>,
                              \<lparr>Event.Type = ''ADDED'', Object = PodObject 7\<rparr>],
                    closed = False\<rparr>"
             and namespace = "''default''" and selector = "''app=web''"
             and timeout = 1000 and sortBy = sort and Less = "(<)" and expiry = 5
             and podList = "\<lparr>Items = [], ResourceVersion = ''42''\<rparr>"
             and e = "ClientError []"]
        C7_GetFirstPod_list_then_watch
          [where client = "watching_client
                   \<lparr>events = [\<lparr>Event.Type = ''DELETED'', Object = PodObject 5\<rparr>,
                              \<lparr>Event.Type = ''ADDED'', Object = PodObject 7\<rparr>],
                    closed = False\<rparr>"
             and namespace = "''default''" and selector = "''app=web''"
             and timeout = 1000 and sortBy = sort and Less = "(<)" and expiry = 1
             and podList = "\<lparr>Items = [], ResourceVersion = ''42''\<rparr>"
             and e = "ClientError []"]
        C7_GetFirstPod_list_then_watch
          [where client = "watching_client
                   \<lparr>events = [\<lparr>Event.Type = ''DELETED'', Object = PodObject 5\<rparr>], closed = False\<rparr>"
             and namespace = "''default''" and selector = "''app=web''"
             and timeout = 1000 and sortBy = sort and Less = "(<)" and expiry = 9
             and podList = "\<lparr>Items = [], ResourceVersion = ''42''\<rparr>"
             and e = "ClientError []"]
        C7_GetFirstPod_list_then_watch
          [where client = "watching_client
                   \<lparr>events = [\<lparr>Event.Type = ''DELETED'', Object = PodObject 5\<rparr>], closed = True\<rparr>"
             and namespace = "''default''" and selector = "''app=web''"
             and timeout = 0 and sortBy = sort and Less = "(<)" and expiry = 0
             and podList = "\<lparr>Items = [], ResourceVersion = ''42''\<rparr>"
             and e = "ClientError []"]
  by (simp add: listing_client_def watching_client_def Added_def Modified_def signed_simps)

section \<open>Properties of updateEnv and UpdateResourceEnv\<close>

subsection \<open>The two loops of updateEnv\<close>

lemma findEnv_found: "snd (findEnv env n) \<longleftrightarrow> n \<in> EnvVar.Name ` set env"
  by (induction env) auto

lemma findEnv_name: "findEnv env n = (e, True) \<Longrightarrow> EnvVar.Name e = n"
  by (induction env) (auto split: if_splits)

lemma findEnv_mem: "findEnv env n = (e, True) \<Longrightarrow> e \<in> set env"
  by (induction env) (auto split: if_splits)

lemma findEnv_first:
  "EnvVar.Name e \<notin> EnvVar.Name ` set pre \<Longrightarrow> findEnv (pre @ e # es) (EnvVar.Name e) = (e, True)"
  by (induction pre) auto

lemma updateEnv_existing_acc:
  "updateEnv_existing xs env out c =
     (out @ fst (updateEnv_existing xs env [] c), snd (updateEnv_existing xs env [] c))"
proof (induction xs arbitrary: out c)
  case Nil
  then show ?case by simp
next
  case (Cons x xs)
  show ?case
  proof (cases "EnvVar.Name x \<in> c")
    case True
    then show ?thesis using Cons.IH [of out c] by simp
  next
    case False
    obtain newer ok where f: "findEnv env (EnvVar.Name x) = (newer, ok)"
      by (cases "findEnv env (EnvVar.Name x)")
    show ?thesis
    proof (cases ok)
      case True
      then show ?thesis
        using False f Cons.IH [of "out @ [newer]" "insert (EnvVar.Name x) c"]
          Cons.IH [of "[newer]" "insert (EnvVar.Name x) c"]
        by simp
    next
      case False
      then show ?thesis
        using \<open>EnvVar.Name x \<notin> c\<close> f Cons.IH [of "out @ [x]" c] Cons.IH [of "[x]" c]
        by simp
    qed
  qed
qed

lemma updateEnv_env_acc: "updateEnv_env es out c = out @ updateEnv_env es [] c"
proof (induction es arbitrary: out c)
  case Nil
  then show ?case by simp
next
  case (Cons e es)
  show ?case
    using Cons.IH [of out c] Cons.IH [of "out @ [e]" "insert (EnvVar.Name e) c"]
      Cons.IH [of "[e]" "insert (EnvVar.Name e) c"]
    by simp
qed

lemma updateEnv_existing_covered:
  "snd (updateEnv_existing xs env out c) = c \<union> (EnvVar.Name ` set xs \<inter> EnvVar.Name ` set env)"
proof (induction xs arbitrary: out c)
  case Nil
  then show ?case by simp
next
  case (Cons x xs)
  obtain newer ok where f: "findEnv env (EnvVar.Name x) = (newer, ok)"
    by (cases "findEnv env (EnvVar.Name x)")
  have ok: "ok \<longleftrightarrow> EnvVar.Name x \<in> EnvVar.Name ` set env"
    using findEnv_found [of env "EnvVar.Name x"] f by simp
  show ?case
    using f ok Cons.IH by (cases ok) auto
qed

lemma updateEnv_existing_names:
  "EnvVar.Name ` set (fst (updateEnv_existing xs env [] c)) = EnvVar.Name ` set xs - c"
proof (induction xs arbitrary: c)
  case Nil
  then show ?case by simp
next
  case (Cons x xs)
  obtain newer ok where f: "findEnv env (EnvVar.Name x) = (newer, ok)"
    by (cases "findEnv env (EnvVar.Name x)")
  show ?case
  proof (cases "EnvVar.Name x \<in> c")
    case True
    then show ?thesis using Cons.IH [of c] by auto
  next
    case False
    show ?thesis
    proof (cases ok)
      case True
      have n: "EnvVar.Name newer = EnvVar.Name x"
        using f True findEnv_name [of env "EnvVar.Name x" newer] by simp
      have "fst (updateEnv_existing (x # xs) env [] c) =
              newer # fst (updateEnv_existing xs env [] (insert (EnvVar.Name x) c))"
        using False f True updateEnv_existing_acc [of xs env "[newer]" "insert (EnvVar.Name x) c"]
        by simp
      then show ?thesis
        using n False Cons.IH [of "insert (EnvVar.Name x) c"] by auto
    next
      case nf: False
      have "fst (updateEnv_existing (x # xs) env [] c) = x # fst (updateEnv_existing xs env [] c)"
        using False f nf updateEnv_existing_acc [of xs env "[x]" c] by simp
      then show ?thesis
        using False Cons.IH [of c] by auto
    qed
  qed
qed

lemma updateEnv_env_names:
  "EnvVar.Name ` set (updateEnv_env es [] c) = EnvVar.Name ` set es - c"
proof (induction es arbitrary: c)
  case Nil
  then show ?case by simp
next
  case (Cons e es)
  show ?case
  proof (cases "EnvVar.Name e \<in> c")
    case True
    then show ?thesis using Cons.IH [of c] by auto
  next
    case False
    have "updateEnv_env (e # es) [] c = e # updateEnv_env es [] (insert (EnvVar.Name e) c)"
      using False updateEnv_env_acc [of es "[e]" "insert (EnvVar.Name e) c"] by simp
    then show ?thesis
      using False Cons.IH [of "insert (EnvVar.Name e) c"] by auto
  qed
qed

lemma updateEnv_env_noop:
  "EnvVar.Name ` set es \<subseteq> c \<Longrightarrow> updateEnv_env es out c = out"
  by (induction es arbitrary: out c) auto

lemma upserted_fixed:
  "upserted env c ys \<Longrightarrow>
   updateEnv_existing ys env out c = (out @ ys, c \<union> (EnvVar.Name ` set ys \<inter> EnvVar.Name ` set env))"
proof (induction ys arbitrary: out c)
  case Nil
  then show ?case by simp
next
  case (Cons y ys)
  obtain newer ok where f: "findEnv env (EnvVar.Name y) = (newer, ok)"
    by (cases "findEnv env (EnvVar.Name y)")
  have ok: "ok \<longleftrightarrow> EnvVar.Name y \<in> EnvVar.Name ` set env"
    using findEnv_found [of env "EnvVar.Name y"] f by simp
  show ?case
  proof (cases ok)
    case True
    then show ?thesis
      using Cons.prems f ok Cons.IH [of "insert (EnvVar.Name y) c" "out @ [y]"] by auto
  next
    case False
    then show ?thesis
      using Cons.prems f ok Cons.IH [of c "out @ [y]"] by auto
  qed
qed

lemma upserted_append:
  "upserted env c (as @ bs) \<longleftrightarrow>
   upserted env c as \<and> upserted env (c \<union> (EnvVar.Name ` set as \<inter> EnvVar.Name ` set env)) bs"
proof (induction as arbitrary: c)
  case Nil
  then show ?case by simp
next
  case (Cons a as)
  obtain newer ok where f: "findEnv env (EnvVar.Name a) = (newer, ok)"
    by (cases "findEnv env (EnvVar.Name a)")
  have ok: "ok \<longleftrightarrow> EnvVar.Name a \<in> EnvVar.Name ` set env"
    using findEnv_found [of env "EnvVar.Name a"] f by simp
  show ?case
  proof (cases ok)
    case True
    have "insert (EnvVar.Name a) c \<union> (EnvVar.Name ` set as \<inter> EnvVar.Name ` set env) =
          c \<union> (EnvVar.Name ` set (a # as) \<inter> EnvVar.Name ` set env)"
      using True ok by auto
    then show ?thesis
      using f True Cons.IH [of "insert (EnvVar.Name a) c"] by auto
  next
    case False
    have "c \<union> (EnvVar.Name ` set as \<inter> EnvVar.Name ` set env) =
          c \<union> (EnvVar.Name ` set (a # as) \<inter> EnvVar.Name ` set env)"
      using False ok by auto
    then show ?thesis
      using f False Cons.IH [of c] by auto
  qed
qed

lemma upserted_existing: "upserted env c (fst (updateEnv_existing xs env [] c))"
proof (induction xs arbitrary: c)
  case Nil
  then show ?case by simp
next
  case (Cons x xs)
  obtain newer ok where f: "findEnv env (EnvVar.Name x) = (newer, ok)"
    by (cases "findEnv env (EnvVar.Name x)")
  show ?case
  proof (cases "EnvVar.Name x \<in> c")
    case True
    then show ?thesis using Cons.IH [of c] by simp
  next
    case False
    show ?thesis
    proof (cases ok)
      case True
      have n: "EnvVar.Name newer = EnvVar.Name x"
        using f True findEnv_name [of env "EnvVar.Name x" newer] by simp
      have "fst (updateEnv_existing (x # xs) env [] c) =
              newer # fst (updateEnv_existing xs env [] (insert (EnvVar.Name x) c))"
        using False f True updateEnv_existing_acc [of xs env "[newer]" "insert (EnvVar.Name x) c"]
        by simp
      then show ?thesis
        using n f True False Cons.IH [of "insert (EnvVar.Name x) c"] by simp
    next
      case nf: False
      have "fst (updateEnv_existing (x # xs) env [] c) = x # fst (updateEnv_existing xs env [] c)"
        using False f nf updateEnv_existing_acc [of xs env "[x]" c] by simp
      then show ?thesis
        using f nf False Cons.IH [of c] by simp
    qed
  qed
qed

lemma upserted_env:
  "EnvVar.Name ` set pre \<subseteq> c \<Longrightarrow> upserted (pre @ es) c (updateEnv_env es [] c)"
proof (induction es arbitrary: pre c)
  case Nil
  then show ?case by simp
next
  case (Cons e es)
  show ?case
  proof (cases "EnvVar.Name e \<in> c")
    case True
    then show ?thesis
      using Cons.IH [of "pre @ [e]" c] Cons.prems by simp
  next
    case False
    have first: "findEnv (pre @ e # es) (EnvVar.Name e) = (e, True)"
      using False Cons.prems by (intro findEnv_first) auto
    have "updateEnv_env (e # es) [] c = e # updateEnv_env es [] (insert (EnvVar.Name e) c)"
      using False updateEnv_env_acc [of es "[e]" "insert (EnvVar.Name e) c"] by simp
    then show ?thesis
      using False first Cons.IH [of "pre @ [e]" "insert (EnvVar.Name e) c"] Cons.prems by auto
  qed
qed

lemma updateEnv_split:
  "updateEnv existing env remove =
     fst (updateEnv_existing existing env [] (set remove)) @
     updateEnv_env env [] (set remove \<union> (EnvVar.Name ` set existing \<inter> EnvVar.Name ` set env))"
proof -
  obtain out c where oc: "updateEnv_existing existing env [] (set remove) = (out, c)"
    by (cases "updateEnv_existing existing env [] (set remove)")
  have "c = set remove \<union> (EnvVar.Name ` set existing \<inter> EnvVar.Name ` set env)"
    using updateEnv_existing_covered [of existing env "[]" "set remove"] oc by simp
  then show ?thesis
    using oc updateEnv_env_acc [of env out c] by (simp add: updateEnv_def)
qed

lemma updateEnv_names:
  "EnvVar.Name ` set (updateEnv existing env remove) =
     (EnvVar.Name ` set existing \<union> EnvVar.Name ` set env) - set remove"
  by (auto simp: updateEnv_split updateEnv_existing_names updateEnv_env_names image_Un)

lemma updateEnv_idem:
  "updateEnv (updateEnv existing env remove) env remove = updateEnv existing env remove"
proof -
  let ?R = "set remove"
  let ?N = "EnvVar.Name ` set env"
  let ?A = "fst (updateEnv_existing existing env [] ?R)"
  let ?c1 = "?R \<union> (EnvVar.Name ` set existing \<inter> ?N)"
  let ?B = "updateEnv_env env [] ?c1"
  have out1: "updateEnv existing env remove = ?A @ ?B"
    by (rule updateEnv_split)
  have c1: "?R \<union> (EnvVar.Name ` set ?A \<inter> ?N) = ?c1"
    by (auto simp: updateEnv_existing_names)
  have "upserted env ?c1 ?B"
    using upserted_env [of "[]" ?c1 env] by simp
  then have st: "upserted env ?R (?A @ ?B)"
    by (simp add: upserted_append upserted_existing c1)
  have first: "updateEnv_existing (?A @ ?B) env [] ?R =
                 (?A @ ?B, ?R \<union> (EnvVar.Name ` set (?A @ ?B) \<inter> ?N))"
    using upserted_fixed [OF st, of "[]"] by simp
  have "?N \<subseteq> ?R \<union> (EnvVar.Name ` set (?A @ ?B) \<inter> ?N)"
    by (auto simp: updateEnv_existing_names updateEnv_env_names image_Un)
  then have "updateEnv_env env (?A @ ?B) (?R \<union> (EnvVar.Name ` set (?A @ ?B) \<inter> ?N)) = ?A @ ?B"
    by (rule updateEnv_env_noop)
  then have "updateEnv (?A @ ?B) env remove = ?A @ ?B"
    using first by (simp add: updateEnv_def)
  then show ?thesis
    using out1 by simp
qed

subsection \<open>Lists that name no variable twice\<close>

lemma updateEnv_existing_distinct:
  "distinct (map EnvVar.Name xs) \<Longrightarrow>
   fst (updateEnv_existing xs env [] c) =
     map (\<lambda>e. case findEnv env (EnvVar.Name e) of (newer, True) \<Rightarrow> newer | (newer, False) \<Rightarrow> e)
       (filter (\<lambda>e. EnvVar.Name e \<notin> c) xs)"
proof (induction xs arbitrary: c)
  case Nil
  then show ?case by simp
next
  case (Cons x xs)
  obtain newer ok where f: "findEnv env (EnvVar.Name x) = (newer, ok)"
    by (cases "findEnv env (EnvVar.Name x)")
  have d: "distinct (map EnvVar.Name xs)" and nx: "EnvVar.Name x \<notin> EnvVar.Name ` set xs"
    using Cons.prems by auto
  show ?case
  proof (cases "EnvVar.Name x \<in> c")
    case True
    then show ?thesis using Cons.IH [OF d, of c] by simp
  next
    case False
    show ?thesis
    proof (cases ok)
      case True
      have same: "filter (\<lambda>e. EnvVar.Name e \<notin> insert (EnvVar.Name x) c) xs =
                  filter (\<lambda>e. EnvVar.Name e \<notin> c) xs"
      proof (rule filter_cong [OF refl])
        fix a
        assume "a \<in> set xs"
        then have "EnvVar.Name a \<noteq> EnvVar.Name x"
          using nx by (metis imageI)
        then show "(EnvVar.Name a \<notin> insert (EnvVar.Name x) c) = (EnvVar.Name a \<notin> c)"
          by simp
      qed
      have "fst (updateEnv_existing (x # xs) env [] c) =
              newer # fst (updateEnv_existing xs env [] (insert (EnvVar.Name x) c))"
        using False f True updateEnv_existing_acc [of xs env "[newer]" "insert (EnvVar.Name x) c"]
        by simp
      then show ?thesis
        using f True False same Cons.IH [OF d, of "insert (EnvVar.Name x) c"] by simp
    next
      case nf: False
      have "fst (updateEnv_existing (x # xs) env [] c) = x # fst (updateEnv_existing xs env [] c)"
        using False f nf updateEnv_existing_acc [of xs env "[x]" c] by simp
      then show ?thesis
        using f nf False Cons.IH [OF d, of c] by simp
    qed
  qed
qed

lemma updateEnv_env_distinct:
  "distinct (map EnvVar.Name es) \<Longrightarrow>
   updateEnv_env es [] c = filter (\<lambda>e. EnvVar.Name e \<notin> c) es"
proof (induction es arbitrary: c)
  case Nil
  then show ?case by simp
next
  case (Cons e es)
  have d: "distinct (map EnvVar.Name es)" and ne: "EnvVar.Name e \<notin> EnvVar.Name ` set es"
    using Cons.prems by auto
  show ?case
  proof (cases "EnvVar.Name e \<in> c")
    case True
    then show ?thesis using Cons.IH [OF d, of c] by simp
  next
    case False
    have same: "filter (\<lambda>a. EnvVar.Name a \<notin> insert (EnvVar.Name e) c) es =
                filter (\<lambda>a. EnvVar.Name a \<notin> c) es"
    proof (rule filter_cong [OF refl])
      fix a
      assume "a \<in> set es"
      then have "EnvVar.Name a \<noteq> EnvVar.Name e"
        using ne by (metis imageI)
      then show "(EnvVar.Name a \<notin> insert (EnvVar.Name e) c) = (EnvVar.Name a \<notin> c)"
        by simp
    qed
    have "updateEnv_env (e # es) [] c = e # updateEnv_env es [] (insert (EnvVar.Name e) c)"
      using False updateEnv_env_acc [of es "[e]" "insert (EnvVar.Name e) c"] by simp
    then show ?thesis
      using False same Cons.IH [OF d, of "insert (EnvVar.Name e) c"] by simp
  qed
qed

lemma updateEnv_in_place:
  assumes "distinct (map EnvVar.Name existing)" "distinct (map EnvVar.Name env)"
  shows "updateEnv existing env remove =
     map (\<lambda>e. case findEnv env (EnvVar.Name e) of (newer, True) \<Rightarrow> newer | (newer, False) \<Rightarrow> e)
       (filter (\<lambda>e. EnvVar.Name e \<notin> set remove) existing) @
     filter (\<lambda>e. EnvVar.Name e \<notin> set remove \<and> EnvVar.Name e \<notin> EnvVar.Name ` set existing) env"
proof -
  have "filter (\<lambda>e. EnvVar.Name e \<notin> set remove \<union> (EnvVar.Name ` set existing \<inter> EnvVar.Name ` set env)) env =
        filter (\<lambda>e. EnvVar.Name e \<notin> set remove \<and> EnvVar.Name e \<notin> EnvVar.Name ` set existing) env"
    by (intro filter_cong) auto
  then show ?thesis
    using assms by (simp add: updateEnv_split updateEnv_existing_distinct updateEnv_env_distinct)
qed

subsection \<open>The loop over the containers\<close>

lemma fold_update_map:
  "n \<le> length xs \<Longrightarrow>
   fold (\<lambda>i cs. cs[i := f (cs ! i)]) [0..<n] xs = map f (take n xs) @ drop n xs"
proof (induction n)
  case 0
  then show ?case by simp
next
  case (Suc n)
  then have n: "n < length xs" by simp
  have "(map f (take n xs) @ drop n xs)[n := f ((map f (take n xs) @ drop n xs) ! n)] =
        map f (take (Suc n) xs) @ drop (Suc n) xs"
    using n by (simp add: list_update_append nth_append take_Suc_conv_app_nth
        Cons_nth_drop_Suc [symmetric])
  then show ?case
    using Suc.IH n by simp
qed

lemma update_Containers_map:
  "update_Containers addingEnvs containers =
     map (\<lambda>c. c\<lparr>Env := updateEnv (Env c) addingEnvs []\<rparr>) containers"
  using fold_update_map [of "length containers" containers
      "\<lambda>c. c\<lparr>Env := updateEnv (Env c) addingEnvs []\<rparr>"]
  by (simp add: update_Containers_def)

subsection \<open>Entries kept and entries upserted\<close>

lemma updateEnv_existing_kept:
  "filter (\<lambda>e. EnvVar.Name e \<notin> EnvVar.Name ` set env) (fst (updateEnv_existing xs env [] c)) =
   filter (\<lambda>e. EnvVar.Name e \<notin> EnvVar.Name ` set env \<and> EnvVar.Name e \<notin> c) xs"
proof (induction xs arbitrary: c)
  case Nil
  then show ?case by simp
next
  case (Cons x xs)
  obtain newer ok where f: "findEnv env (EnvVar.Name x) = (newer, ok)"
    by (cases "findEnv env (EnvVar.Name x)")
  have ok: "ok \<longleftrightarrow> EnvVar.Name x \<in> EnvVar.Name ` set env"
    using findEnv_found [of env "EnvVar.Name x"] f by simp
  show ?case
  proof (cases "EnvVar.Name x \<in> c")
    case True
    then show ?thesis using Cons.IH [of c] by simp
  next
    case False
    show ?thesis
    proof (cases ok)
      case True
      have n: "EnvVar.Name newer = EnvVar.Name x"
        using f True findEnv_name [of env "EnvVar.Name x" newer] by simp
      have same: "filter (\<lambda>e. EnvVar.Name e \<notin> EnvVar.Name ` set env \<and>
                               EnvVar.Name e \<notin> insert (EnvVar.Name x) c) xs =
                  filter (\<lambda>e. EnvVar.Name e \<notin> EnvVar.Name ` set env \<and> EnvVar.Name e \<notin> c) xs"
      proof (rule filter_cong [OF refl])
        fix a
        show "(EnvVar.Name a \<notin> EnvVar.Name ` set env \<and> EnvVar.Name a \<notin> insert (EnvVar.Name x) c) =
              (EnvVar.Name a \<notin> EnvVar.Name ` set env \<and> EnvVar.Name a \<notin> c)"
          using True ok by (cases "EnvVar.Name a = EnvVar.Name x") simp_all
      qed
      have "fst (updateEnv_existing (x # xs) env [] c) =
              newer # fst (updateEnv_existing xs env [] (insert (EnvVar.Name x) c))"
        using False f True updateEnv_existing_acc [of xs env "[newer]" "insert (EnvVar.Name x) c"]
        by simp
      then show ?thesis
        using n True ok False same Cons.IH [of "insert (EnvVar.Name x) c"] by simp
    next
      case nf: False
      have "fst (updateEnv_existing (x # xs) env [] c) = x # fst (updateEnv_existing xs env [] c)"
        using False f nf updateEnv_existing_acc [of xs env "[x]" c] by simp
      then show ?thesis
        using nf ok False Cons.IH [of c] by simp
    qed
  qed
qed

lemma updateEnv_env_subset: "set (updateEnv_env es [] c) \<subseteq> set es"
proof (induction es arbitrary: c)
  case Nil
  then show ?case by simp
next
  case (Cons e es)
  show ?case
  proof (cases "EnvVar.Name e \<in> c")
    case True
    then show ?thesis using Cons.IH [of c] by auto
  next
    case False
    have "updateEnv_env (e # es) [] c = e # updateEnv_env es [] (insert (EnvVar.Name e) c)"
      using False updateEnv_env_acc [of es "[e]" "insert (EnvVar.Name e) c"] by simp
    then show ?thesis
      using Cons.IH [of "insert (EnvVar.Name e) c"] by auto
  qed
qed

lemma updateEnv_existing_from:
  "e \<in> set (fst (updateEnv_existing xs env [] c)) \<Longrightarrow>
   e \<in> set env \<or> (e \<in> set xs \<and> EnvVar.Name e \<notin> EnvVar.Name ` set env)"
proof (induction xs arbitrary: c)
  case Nil
  then show ?case by simp
next
  case (Cons x xs)
  obtain newer ok where f: "findEnv env (EnvVar.Name x) = (newer, ok)"
    by (cases "findEnv env (EnvVar.Name x)")
  have ok: "ok \<longleftrightarrow> EnvVar.Name x \<in> EnvVar.Name ` set env"
    using findEnv_found [of env "EnvVar.Name x"] f by simp
  show ?case
  proof (cases "EnvVar.Name x \<in> c")
    case True
    then show ?thesis using Cons.IH [of c] Cons.prems by auto
  next
    case False
    show ?thesis
    proof (cases ok)
      case True
      have m: "newer \<in> set env"
        using f True findEnv_mem [of env "EnvVar.Name x" newer] by simp
      have "fst (updateEnv_existing (x # xs) env [] c) =
              newer # fst (updateEnv_existing xs env [] (insert (EnvVar.Name x) c))"
        using False f True updateEnv_existing_acc [of xs env "[newer]" "insert (EnvVar.Name x) c"]
        by simp
      then show ?thesis
        using m Cons.prems Cons.IH [of "insert (EnvVar.Name x) c"] by auto
    next
      case nf: False
      have "fst (updateEnv_existing (x # xs) env [] c) = x # fst (updateEnv_existing xs env [] c)"
        using False f nf updateEnv_existing_acc [of xs env "[x]" c] by simp
      then show ?thesis
        using nf ok Cons.prems Cons.IH [of c] by auto
    qed
  qed
qed

lemma updateEnv_from:
  "e \<in> set (updateEnv existing env remove) \<Longrightarrow>
   e \<in> set env \<or> (e \<in> set existing \<and> EnvVar.Name e \<notin> EnvVar.Name ` set env)"
  using updateEnv_existing_from [of e existing env "set remove"]
    updateEnv_env_subset [of env "set remove \<union> (EnvVar.Name ` set existing \<inter> EnvVar.Name ` set env)"]
  by (auto simp: updateEnv_split)

lemma updateEnv_kept:
  "filter (\<lambda>e. EnvVar.Name e \<notin> EnvVar.Name ` set env) (updateEnv existing env remove) =
   filter (\<lambda>e. EnvVar.Name e \<notin> EnvVar.Name ` set env \<and> EnvVar.Name e \<notin> set remove) existing"
proof -
  have "filter (\<lambda>e. EnvVar.Name e \<notin> EnvVar.Name ` set env)
          (updateEnv_env env [] (set remove \<union> (EnvVar.Name ` set existing \<inter> EnvVar.Name ` set env))) = []"
    using updateEnv_env_subset [of env "set remove \<union> (EnvVar.Name ` set existing \<inter> EnvVar.Name ` set env)"]
    by (auto simp: filter_empty_conv)
  then show ?thesis
    by (simp add: updateEnv_split updateEnv_existing_kept)
qed

lemma upserted_distinct:
  "upserted env c ys \<Longrightarrow>
   distinct (map EnvVar.Name (filter (\<lambda>e. EnvVar.Name e \<in> EnvVar.Name ` set env) ys)) \<and>
   EnvVar.Name ` set ys \<inter> c = {}"
proof (induction ys arbitrary: c)
  case Nil
  then show ?case by simp
next
  case (Cons y ys)
  obtain newer ok where f: "findEnv env (EnvVar.Name y) = (newer, ok)"
    by (cases "findEnv env (EnvVar.Name y)")
  have ok: "ok \<longleftrightarrow> EnvVar.Name y \<in> EnvVar.Name ` set env"
    using findEnv_found [of env "EnvVar.Name y"] f by simp
  show ?case
  proof (cases ok)
    case True
    then have "upserted env (insert (EnvVar.Name y) c) ys" and "EnvVar.Name y \<notin> c"
      using Cons.prems f by simp_all
    then show ?thesis
      using Cons.IH [of "insert (EnvVar.Name y) c"] True ok by auto
  next
    case False
    then have "upserted env c ys" and "EnvVar.Name y \<notin> c"
      using Cons.prems f by simp_all
    then show ?thesis
      using Cons.IH [of c] False ok by auto
  qed
qed

lemma upserted_updateEnv: "upserted env (set remove) (updateEnv existing env remove)"
proof -
  let ?R = "set remove"
  let ?N = "EnvVar.Name ` set env"
  let ?A = "fst (updateEnv_existing existing env [] ?R)"
  let ?c1 = "?R \<union> (EnvVar.Name ` set existing \<inter> ?N)"
  let ?B = "updateEnv_env env [] ?c1"
  have c1: "?R \<union> (EnvVar.Name ` set ?A \<inter> ?N) = ?c1"
    by (auto simp: updateEnv_existing_names)
  have "upserted env ?c1 ?B"
    using upserted_env [of "[]" ?c1 env] by simp
  then have "upserted env ?R (?A @ ?B)"
    by (simp add: upserted_append upserted_existing c1)
  then show ?thesis
    by (simp add: updateEnv_split)
qed

lemma updateEnv_once:
  "distinct (map EnvVar.Name
     (filter (\<lambda>e. EnvVar.Name e \<in> EnvVar.Name ` set env) (updateEnv existing env remove)))"
  using upserted_distinct [OF upserted_updateEnv] by blast

lemma upserted_findEnv:
  "upserted env c ys \<Longrightarrow> e \<in> set ys \<Longrightarrow> EnvVar.Name e \<in> EnvVar.Name ` set env \<Longrightarrow>
   findEnv env (EnvVar.Name e) = (e, True)"
proof (induction ys arbitrary: c)
  case Nil
  then show ?case by simp
next
  case (Cons y ys)
  obtain newer ok where f: "findEnv env (EnvVar.Name y) = (newer, ok)"
    by (cases "findEnv env (EnvVar.Name y)")
  have ok: "ok \<longleftrightarrow> EnvVar.Name y \<in> EnvVar.Name ` set env"
    using findEnv_found [of env "EnvVar.Name y"] f by simp
  show ?case
  proof (cases "e = y")
    case True
    then show ?thesis
      using Cons.prems f ok by (cases ok) simp_all
  next
    case False
    then have e: "e \<in> set ys"
      using Cons.prems by simp
    show ?thesis
    proof (cases ok)
      case True
      then have "upserted env (insert (EnvVar.Name y) c) ys"
        using Cons.prems f by simp
      then show ?thesis
        using Cons.IH [of "insert (EnvVar.Name y) c"] e Cons.prems by simp
    next
      case nf: False
      then have "upserted env c ys"
        using Cons.prems f by simp
      then show ?thesis
        using Cons.IH [of c] e Cons.prems by simp
    qed
  qed
qed

lemma updateEnv_upsert:
  "e \<in> set (updateEnv existing env remove) \<Longrightarrow> EnvVar.Name e \<in> EnvVar.Name ` set env \<Longrightarrow>
   findEnv env (EnvVar.Name e) = (e, True)"
  using upserted_findEnv [OF upserted_updateEnv] by blast

lemma same_name_distinct_length:
  "distinct (map f ys) \<Longrightarrow> \<forall>y \<in> set ys. f y = k \<Longrightarrow> length ys \<le> 1"
  by (cases ys; cases "tl ys") auto

lemma updateEnv_marker:
  fixes r :: "'v EnvVar"
  shows "r \<in> set (updateEnv env [r] [])"
    and "filter (\<lambda>e. EnvVar.Name e \<noteq> EnvVar.Name r) (updateEnv env [r] []) =
         filter (\<lambda>e. EnvVar.Name e \<noteq> EnvVar.Name r) env"
    and "length (filter (\<lambda>e. EnvVar.Name e = EnvVar.Name r) (updateEnv env [r] [])) = 1"
proof -
  have "EnvVar.Name r \<in> EnvVar.Name ` set (updateEnv env [r] [])"
    by (simp add: updateEnv_names)
  then obtain e where e: "e \<in> set (updateEnv env [r] [])" "EnvVar.Name e = EnvVar.Name r"
    by auto
  then have "e = r"
    using updateEnv_from [of e env "[r]" "[]"] by auto
  then show in_out: "r \<in> set (updateEnv env [r] [])"
    using e by simp
  show "filter (\<lambda>e. EnvVar.Name e \<noteq> EnvVar.Name r) (updateEnv env [r] []) =
        filter (\<lambda>e. EnvVar.Name e \<noteq> EnvVar.Name r) env"
    using updateEnv_kept [of "[r]" env "[]"] by simp
  have "length (filter (\<lambda>e. EnvVar.Name e = EnvVar.Name r) (updateEnv env [r] [])) \<le> 1"
    using updateEnv_once [of "[r]" env "[]"]
    by (intro same_name_distinct_length [where f = EnvVar.Name and k = "EnvVar.Name r"]) simp_all
  moreover have "filter (\<lambda>e. EnvVar.Name e = EnvVar.Name r) (updateEnv env [r] []) \<noteq> []"
    using in_out by (auto simp: filter_empty_conv)
  ultimately show "length (filter (\<lambda>e. EnvVar.Name e = EnvVar.Name r) (updateEnv env [r] [])) = 1"
    by (cases "filter (\<lambda>e. EnvVar.Name e = EnvVar.Name r) (updateEnv env [r] [])") simp_all
qed

subsection \<open>The result for all lists\<close>

lemma keep_first_filter:
  "keep_first names (filter (\<lambda>a. EnvVar.Name a \<noteq> n) es) =
   filter (\<lambda>a. EnvVar.Name a \<noteq> n) (keep_first names es)"
proof (induction names es rule: keep_first.induct)
  case (1 names)
  then show ?case by simp
next
  case (2 names e es)
  have comm: "filter (\<lambda>a. EnvVar.Name a \<noteq> EnvVar.Name e) (filter (\<lambda>a. EnvVar.Name a \<noteq> n) es) =
              filter (\<lambda>a. EnvVar.Name a \<noteq> n) (filter (\<lambda>a. EnvVar.Name a \<noteq> EnvVar.Name e) es)"
    by (simp add: conj_commute)
  show ?case
  proof (cases "EnvVar.Name e \<in> names")
    case True
    show ?thesis
    proof (cases "EnvVar.Name e = n")
      case same: True
      have "filter (\<lambda>a. EnvVar.Name a \<noteq> n) (filter (\<lambda>a. EnvVar.Name a \<noteq> n) es) =
            filter (\<lambda>a. EnvVar.Name a \<noteq> n) es"
        by simp
      then show ?thesis
        using True same "2.IH"(1) by simp
    next
      case False
      then show ?thesis
        using True "2.IH"(1) comm by simp
    qed
  next
    case False
    then show ?thesis
      using "2.IH"(2) by simp
  qed
qed

lemma updateEnv_existing_general:
  "fst (updateEnv_existing xs env [] c) =
     map (\<lambda>e. case findEnv env (EnvVar.Name e) of (newer, True) \<Rightarrow> newer | (newer, False) \<Rightarrow> e)
       (keep_first (EnvVar.Name ` set env) (filter (\<lambda>e. EnvVar.Name e \<notin> c) xs))"
proof (induction xs arbitrary: c)
  case Nil
  then show ?case by simp
next
  case (Cons x xs)
  obtain newer ok where f: "findEnv env (EnvVar.Name x) = (newer, ok)"
    by (cases "findEnv env (EnvVar.Name x)")
  have ok: "ok \<longleftrightarrow> EnvVar.Name x \<in> EnvVar.Name ` set env"
    using findEnv_found [of env "EnvVar.Name x"] f by simp
  show ?case
  proof (cases "EnvVar.Name x \<in> c")
    case True
    then show ?thesis using Cons.IH [of c] by simp
  next
    case False
    show ?thesis
    proof (cases ok)
      case True
      have same: "filter (\<lambda>a. EnvVar.Name a \<noteq> EnvVar.Name x) (filter (\<lambda>e. EnvVar.Name e \<notin> c) xs) =
                  filter (\<lambda>e. EnvVar.Name e \<notin> insert (EnvVar.Name x) c) xs"
        by (auto intro: filter_cong)
      have "fst (updateEnv_existing (x # xs) env [] c) =
              newer # fst (updateEnv_existing xs env [] (insert (EnvVar.Name x) c))"
        using False f True updateEnv_existing_acc [of xs env "[newer]" "insert (EnvVar.Name x) c"]
        by simp
      then show ?thesis
        using f True ok False same Cons.IH [of "insert (EnvVar.Name x) c"] by simp
    next
      case nf: False
      have "fst (updateEnv_existing (x # xs) env [] c) = x # fst (updateEnv_existing xs env [] c)"
        using False f nf updateEnv_existing_acc [of xs env "[x]" c] by simp
      then show ?thesis
        using f nf ok False Cons.IH [of c] by simp
    qed
  qed
qed

lemma updateEnv_env_general:
  "updateEnv_env es [] c = filter (\<lambda>e. EnvVar.Name e \<notin> c) (keep_first UNIV es)"
proof (induction es arbitrary: c)
  case Nil
  then show ?case by simp
next
  case (Cons e es)
  show ?case
  proof (cases "EnvVar.Name e \<in> c")
    case True
    have "filter (\<lambda>a. EnvVar.Name a \<notin> c) (filter (\<lambda>a. EnvVar.Name a \<noteq> EnvVar.Name e) (keep_first UNIV es)) =
          filter (\<lambda>a. EnvVar.Name a \<notin> c) (keep_first UNIV es)"
      using True by (auto intro: filter_cong)
    then show ?thesis
      using True Cons.IH [of c] by (simp add: keep_first_filter)
  next
    case False
    have same: "filter (\<lambda>a. EnvVar.Name a \<notin> c) (filter (\<lambda>a. EnvVar.Name a \<noteq> EnvVar.Name e) (keep_first UNIV es)) =
                filter (\<lambda>a. EnvVar.Name a \<notin> insert (EnvVar.Name e) c) (keep_first UNIV es)"
      by (auto intro: filter_cong)
    have "updateEnv_env (e # es) [] c = e # updateEnv_env es [] (insert (EnvVar.Name e) c)"
      using False updateEnv_env_acc [of es "[e]" "insert (EnvVar.Name e) c"] by simp
    then show ?thesis
      using False same Cons.IH [of "insert (EnvVar.Name e) c"] by (simp add: keep_first_filter)
  qed
qed

lemma keep_first_names: "EnvVar.Name ` set (keep_first names es) = EnvVar.Name ` set es"
proof (induction names es rule: keep_first.induct)
  case (1 names)
  then show ?case by simp
next
  case (2 names e es)
  show ?case
  proof (cases "EnvVar.Name e \<in> names")
    case True
    then show ?thesis
      using "2.IH"(1) by auto
  next
    case False
    then show ?thesis
      using "2.IH"(2) by auto
  qed
qed

lemma updateEnv_general:
  "updateEnv existing env remove =
     map (\<lambda>e. case findEnv env (EnvVar.Name e) of (newer, True) \<Rightarrow> newer | (newer, False) \<Rightarrow> e)
       (keep_first (EnvVar.Name ` set env) (filter (\<lambda>e. EnvVar.Name e \<notin> set remove) existing)) @
     filter (\<lambda>e. EnvVar.Name e \<notin> set remove \<and> EnvVar.Name e \<notin> EnvVar.Name ` set existing)
       (keep_first UNIV env)"
proof -
  have "filter (\<lambda>e. EnvVar.Name e \<notin> set remove \<union> (EnvVar.Name ` set existing \<inter> EnvVar.Name ` set env))
          (keep_first UNIV env) =
        filter (\<lambda>e. EnvVar.Name e \<notin> set remove \<and> EnvVar.Name e \<notin> EnvVar.Name ` set existing)
          (keep_first UNIV env)"
  proof (rule filter_cong [OF refl])
    fix a
    assume "a \<in> set (keep_first UNIV env)"
    then have "EnvVar.Name a \<in> EnvVar.Name ` set env"
      using keep_first_names [of UNIV env] by blast
    then show "(EnvVar.Name a \<notin> set remove \<union> (EnvVar.Name ` set existing \<inter> EnvVar.Name ` set env)) =
               (EnvVar.Name a \<notin> set remove \<and> EnvVar.Name a \<notin> EnvVar.Name ` set existing)"
      by auto
  qed
  then show ?thesis
    by (simp add: updateEnv_split updateEnv_existing_general updateEnv_env_general)
qed

subsection \<open>Idempotence\<close>

text \<open>
  C8, as the claim states it, fails in its second half, for a name that a list has
  twice. Of two upsert entries named N, with no existing entry of that name, only the
  first is appended. And of two existing entries named A, the upsert entry named A
  replaces the first at its place while the second is dropped and not replaced.
\<close>

theorem C8_repeated_names_counterexample:
  "updateEnv [var ''X'' ''0''] [var ''N'' ''1'', var ''N'' ''2''] [] =
     [var ''X'' ''0'', var ''N'' ''1''] \<and>
   updateEnv [var ''A'' ''1'', var ''B'' ''2'', var ''A'' ''3''] [var ''A'' ''9''] [] =
     [var ''A'' ''9'', var ''B'' ''2'']"
  by (simp add: updateEnv_def var_def)

text \<open>
  C8, amended. \<open>updateEnv\<close> is idempotent: applying it again with the same upsert list
  and removal list gives the same list. For all lists the result is: the existing list
  without the removed entries and without the later entries of a name of the upsert
  list that an earlier entry has, each entry named in the upsert list replaced at its
  place by the first upsert entry of that name; followed by the upsert entries that are
  the first of their name, neither removed nor named in the existing list, in the order
  given. So the existing entries that the upsert list does not name stay in their order
  (those named in the removal list apart), and an entry of the result that the upsert
  list names is the upsert entry of that name, once. When neither the existing list nor
  the upsert list names a variable twice, each existing entry named in the upsert list
  is replaced at its place and the upsert entries neither removed nor named in the
  existing list are all appended in the order given.
\<close>

theorem C8_updateEnv_idempotent:
  "updateEnv (updateEnv existing env remove) env remove = updateEnv existing env remove \<and>
   updateEnv existing env remove =
     map (\<lambda>e. case findEnv env (EnvVar.Name e) of (newer, True) \<Rightarrow> newer | (newer, False) \<Rightarrow> e)
       (keep_first (EnvVar.Name ` set env) (filter (\<lambda>e. EnvVar.Name e \<notin> set remove) existing)) @
     filter (\<lambda>e. EnvVar.Name e \<notin> set remove \<and> EnvVar.Name e \<notin> EnvVar.Name ` set existing)
       (keep_first UNIV env) \<and>
   filter (\<lambda>e. EnvVar.Name e \<notin> EnvVar.Name ` set env) (updateEnv existing env remove) =
     filter (\<lambda>e. EnvVar.Name e \<notin> EnvVar.Name ` set env \<and> EnvVar.Name e \<notin> set remove) existing \<and>
   (\<forall>e \<in> set (updateEnv existing env remove).
      EnvVar.Name e \<in> EnvVar.Name ` set env \<longrightarrow> findEnv env (EnvVar.Name e) = (e, True)) \<and>
   distinct (map EnvVar.Name
     (filter (\<lambda>e. EnvVar.Name e \<in> EnvVar.Name ` set env) (updateEnv existing env remove))) \<and>
   (distinct (map EnvVar.Name existing) \<and> distinct (map EnvVar.Name env) \<longrightarrow>
    updateEnv existing env remove =
      map (\<lambda>e. case findEnv env (EnvVar.Name e) of (newer, True) \<Rightarrow> newer | (newer, False) \<Rightarrow> e)
        (filter (\<lambda>e. EnvVar.Name e \<notin> set remove) existing) @
      filter (\<lambda>e. EnvVar.Name e \<notin> set remove \<and> EnvVar.Name e \<notin> EnvVar.Name ` set existing) env)"
proof (intro conjI)
  show "updateEnv (updateEnv existing env remove) env remove = updateEnv existing env remove"
    by (rule updateEnv_idem)
  show "updateEnv existing env remove =
     map (\<lambda>e. case findEnv env (EnvVar.Name e) of (newer, True) \<Rightarrow> newer | (newer, False) \<Rightarrow> e)
       (keep_first (EnvVar.Name ` set env) (filter (\<lambda>e. EnvVar.Name e \<notin> set remove) existing)) @
     filter (\<lambda>e. EnvVar.Name e \<notin> set remove \<and> EnvVar.Name e \<notin> EnvVar.Name ` set existing)
       (keep_first UNIV env)"
    by (rule updateEnv_general)
  show "filter (\<lambda>e. EnvVar.Name e \<notin> EnvVar.Name ` set env) (updateEnv existing env remove) =
     filter (\<lambda>e. EnvVar.Name e \<notin> EnvVar.Name ` set env \<and> EnvVar.Name e \<notin> set remove) existing"
    by (rule updateEnv_kept)
  show "\<forall>e \<in> set (updateEnv existing env remove).
      EnvVar.Name e \<in> EnvVar.Name ` set env \<longrightarrow> findEnv env (EnvVar.Name e) = (e, True)"
    using updateEnv_upsert [of _ existing env remove] by blast
  show "distinct (map EnvVar.Name
     (filter (\<lambda>e. EnvVar.Name e \<in> EnvVar.Name ` set env) (updateEnv existing env remove)))"
    by (rule updateEnv_once)
  show "distinct (map EnvVar.Name existing) \<and> distinct (map EnvVar.Name env) \<longrightarrow>
    updateEnv existing env remove =
      map (\<lambda>e. case findEnv env (EnvVar.Name e) of (newer, True) \<Rightarrow> newer | (newer, False) \<Rightarrow> e)
        (filter (\<lambda>e. EnvVar.Name e \<notin> set remove) existing) @
      filter (\<lambda>e. EnvVar.Name e \<notin> set remove \<and> EnvVar.Name e \<notin> EnvVar.Name ` set existing) env"
    using updateEnv_in_place [of existing env remove] by simp
qed

text \<open>
  Lists without a repeated name: B replaced at its place, C removed although upserted,
  D appended; and the result upserted again. Then lists with repeated names: the
  second A stays (A is not upserted), the second B is dropped, only the first N is
  appended.
\<close>

theorem C8_updateEnv_idempotent_witness:
  "distinct (map EnvVar.Name [var ''A'' ''1'', var ''B'' ''2'', var ''C'' ''3'']) \<and>
   distinct (map EnvVar.Name [var ''B'' ''20'', var ''C'' ''30'', var ''D'' ''4'']) \<and>
   updateEnv [var ''A'' ''1'', var ''B'' ''2'', var ''C'' ''3'']
     [var ''B'' ''20'', var ''C'' ''30'', var ''D'' ''4''] [''C''] =
     [var ''A'' ''1'', var ''B'' ''20'', var ''D'' ''4''] \<and>
   updateEnv [var ''A'' ''1'', var ''B'' ''20'', var ''D'' ''4'']
     [var ''B'' ''20'', var ''C'' ''30'', var ''D'' ''4''] [''C''] =
     [var ''A'' ''1'', var ''B'' ''20'', var ''D'' ''4''] \<and>
   updateEnv [var ''A'' ''1'', var ''B'' ''2'', var ''A'' ''3'', var ''B'' ''4'']
     [var ''B'' ''20'', var ''N'' ''1'', var ''N'' ''2''] [] =
     [var ''A'' ''1'', var ''B'' ''20'', var ''A'' ''3'', var ''N'' ''1'']"
proof -
  note t = C8_updateEnv_idempotent
             [of "[var ''A'' ''1'', var ''B'' ''2'', var ''C'' ''3'']"
                 "[var ''B'' ''20'', var ''C'' ''30'', var ''D'' ''4'']" "[''C'']"]
  note u = C8_updateEnv_idempotent
             [of "[var ''A'' ''1'', var ''B'' ''2'', var ''A'' ''3'', var ''B'' ''4'']"
                 "[var ''B'' ''20'', var ''N'' ''1'', var ''N'' ''2'']" "[]"]
  have d: "distinct (map EnvVar.Name [var ''A'' ''1'', var ''B'' ''2'', var ''C'' ''3''])"
    "distinct (map EnvVar.Name [var ''B'' ''20'', var ''C'' ''30'', var ''D'' ''4''])"
    by (simp_all add: var_def)
  have once: "updateEnv [var ''A'' ''1'', var ''B'' ''2'', var ''C'' ''3'']
                [var ''B'' ''20'', var ''C'' ''30'', var ''D'' ''4''] [''C''] =
              [var ''A'' ''1'', var ''B'' ''20'', var ''D'' ''4'']"
    using t [THEN conjunct2, THEN conjunct1] by (simp add: var_def)
  have twice: "updateEnv [var ''A'' ''1'', var ''B'' ''20'', var ''D'' ''4'']
                 [var ''B'' ''20'', var ''C'' ''30'', var ''D'' ''4''] [''C''] =
               [var ''A'' ''1'', var ''B'' ''20'', var ''D'' ''4'']"
    using t [THEN conjunct1] unfolding once by simp
  have repeated: "updateEnv [var ''A'' ''1'', var ''B'' ''2'', var ''A'' ''3'', var ''B'' ''4'']
                    [var ''B'' ''20'', var ''N'' ''1'', var ''N'' ''2''] [] =
                  [var ''A'' ''1'', var ''B'' ''20'', var ''A'' ''3'', var ''N'' ''1'']"
    using u [THEN conjunct2, THEN conjunct1] by (simp add: var_def)
  show ?thesis
    using d once twice repeated by simp
qed

subsection \<open>Removal before upsert\<close>

text \<open>
  C9. No variable of the output of \<open>updateEnv\<close> has a name of the removal list, also
  when the upsert list has a variable of that name: the names of the output are the
  names of the existing list and of the upsert list without those of the removal list.
\<close>

theorem C9_updateEnv_removal_wins:
  "(\<forall>e \<in> set (updateEnv existing env remove). EnvVar.Name e \<notin> set remove) \<and>
   EnvVar.Name ` set (updateEnv existing env remove) =
     (EnvVar.Name ` set existing \<union> EnvVar.Name ` set env) - set remove"
  using updateEnv_names [of existing env remove] by auto

theorem C9_updateEnv_removal_wins_witness:
  "''C'' \<in> set [''C''] \<and>
   ''C'' \<in> EnvVar.Name ` set [var ''C'' ''30'', var ''D'' ''4''] \<and>
   ''C'' \<notin> EnvVar.Name ` set (updateEnv [var ''A'' ''1'', var ''C'' ''3''] [var ''C'' ''30'', var ''D'' ''4''] [''C'']) \<and>
   ''D'' \<in> EnvVar.Name ` set (updateEnv [var ''A'' ''1'', var ''C'' ''3''] [var ''C'' ''30'', var ''D'' ''4''] [''C''])"
  using C9_updateEnv_removal_wins
          [of "[var ''A'' ''1'', var ''C'' ''3'']" "[var ''C'' ''30'', var ''D'' ''4'']" "[''C'']"]
  by (simp add: var_def)

subsection \<open>What UpdateResourceEnv changes\<close>

text \<open>
  C10. \<open>UpdateResourceEnv\<close> leaves an object that is neither a CloneSet nor a StatefulSet
  of kruise v1beta1 as it is. Of a CloneSet and of such a StatefulSet it changes the
  \<open>Env\<close> field of each container of the pod template and nothing else: the object after
  the call is the object before it with \<open>Spec.Template.Spec.Containers\<close> replaced by the
  same containers, in the same order, each with its \<open>Env\<close> replaced by
  \<open>updateEnv Env [restartEnv] []\<close>. That environment holds the marker
  \<open>RESTARTED_AT\<close> with the current time exactly once, and its other variables are those
  of the environment before, in their order.
\<close>

theorem C10_UpdateResourceEnv_frame:
  fixes cs :: "('v, 'c, 'z) CloneSet_scheme"
    and asts :: "('v, 'c, 'y) AdvancedStatefulSet_scheme"
    and other :: 'o
    and env :: "'v EnvVar list"
  shows
  "UpdateResourceEnv now (OtherObject other) =
     (OtherObject other ::
        (('v, 'c, 'z) CloneSet_scheme, ('v, 'c, 'y) AdvancedStatefulSet_scheme, 'o) Object) \<and>
   UpdateResourceEnv now (CloneSetObject cs) =
     (CloneSetObject
        (cs\<lparr>CloneSet.Spec_Template_Spec_Containers :=
              map (\<lambda>c. c\<lparr>Env := updateEnv (Env c)
                                  [\<lparr>EnvVar.Name = RestartedEnv, Value = now, ValueFrom = None\<rparr>] []\<rparr>)
                (CloneSet.Spec_Template_Spec_Containers cs)\<rparr>) ::
        (('v, 'c, 'z) CloneSet_scheme, ('v, 'c, 'y) AdvancedStatefulSet_scheme, 'o) Object) \<and>
   UpdateResourceEnv now (AdvancedStatefulSetObject asts) =
     (AdvancedStatefulSetObject
        (asts\<lparr>AdvancedStatefulSet.Spec_Template_Spec_Containers :=
                map (\<lambda>c. c\<lparr>Env := updateEnv (Env c)
                                    [\<lparr>EnvVar.Name = RestartedEnv, Value = now, ValueFrom = None\<rparr>] []\<rparr>)
                  (AdvancedStatefulSet.Spec_Template_Spec_Containers asts)\<rparr>) ::
        (('v, 'c, 'z) CloneSet_scheme, ('v, 'c, 'y) AdvancedStatefulSet_scheme, 'o) Object) \<and>
   \<lparr>EnvVar.Name = RestartedEnv, Value = now, ValueFrom = None\<rparr>
     \<in> set (updateEnv env [\<lparr>EnvVar.Name = RestartedEnv, Value = now, ValueFrom = None\<rparr>] []) \<and>
   length (filter (\<lambda>e. EnvVar.Name e = RestartedEnv)
             (updateEnv env [\<lparr>EnvVar.Name = RestartedEnv, Value = now, ValueFrom = None\<rparr>] [])) = 1 \<and>
   filter (\<lambda>e. EnvVar.Name e \<noteq> RestartedEnv)
     (updateEnv env [\<lparr>EnvVar.Name = RestartedEnv, Value = now, ValueFrom = None\<rparr>] []) =
   filter (\<lambda>e. EnvVar.Name e \<noteq> RestartedEnv) env"
  using updateEnv_marker [of "\<lparr>EnvVar.Name = RestartedEnv, Value = now, ValueFrom = None\<rparr>" env]
  by (simp add: UpdateResourceEnv_def update_Containers_map)

theorem C10_UpdateResourceEnv_frame_witness:
  "UpdateResourceEnv ''2021-06-01T12:00:00Z'' (OtherObject db) =
     (OtherObject db :: ((unit, unit) CloneSet, (unit, unit) AdvancedStatefulSet, StatefulSet) Object) \<and>
   UpdateResourceEnv ''2021-06-01T12:00:00Z'' (CloneSetObject clone_with_containers) =
     (CloneSetObject
        (clone\<lparr>CloneSet.Spec_Template_Spec_Containers :=
           [\<lparr>Container.Name = ''app'',
              Env = [var ''RESTARTED_AT'' ''2021-06-01T12:00:00Z'', var ''A'' ''1'']\<rparr>,
            \<lparr>Container.Name = ''sidecar'', Env = [var ''RESTARTED_AT'' ''2021-06-01T12:00:00Z'']\<rparr>]\<rparr>)
      :: ((unit, unit) CloneSet, (unit, unit) AdvancedStatefulSet, StatefulSet) Object)"
  using C10_UpdateResourceEnv_frame
          [where now = "''2021-06-01T12:00:00Z''" and other = db and cs = clone_with_containers
             and asts = adv and env = "[]"]
  by (simp add: clone_with_containers_def var_def RestartedEnv_def updateEnv_def)

end
